theory Spec2Isabelle
  imports Complex_Main
begin

section \<open>JavaScript values used by the three scripts\<close>

text \<open>
  The scripts are \<^verbatim>\<open>scrape_and_geocode.js\<close> (initial geocode),
  \<^verbatim>\<open>unnamed/part_000\<close> (corrective re-resolution) and
  \<^verbatim>\<open>add_zipcodes.js\<close> (postal enrichment).

  A JavaScript number is a finite value, \<open>NaN\<close> or one of the infinities. Finite values
  are modelled by rationals: every finite double is a rational, and the only operations
  the scripts apply to a coordinate are the comparison \<^verbatim>\<open>< 41\<close> and the truthiness
  test, both of which are exact on doubles. The two zeros are one value; both are falsy.
  A coordinate field holds \<^verbatim>\<open>null\<close> or a number.
\<close>

datatype jnum = Fin rat | NaN | PosInf | NegInf

datatype jsval = JNull | JNum jnum

text \<open>\<^verbatim>\<open>if (v)\<close> on a coordinate: \<^verbatim>\<open>null\<close>, \<open>0\<close> and \<open>NaN\<close> are falsy.\<close>

fun truthy :: "jsval \<Rightarrow> bool" where
  "truthy JNull = False"
| "truthy (JNum (Fin r)) = (r \<noteq> 0)"
| "truthy (JNum NaN) = False"
| "truthy (JNum PosInf) = True"
| "truthy (JNum NegInf) = True"

text \<open>\<^verbatim>\<open>v < r\<close> for a finite \<open>r\<close>: \<^verbatim>\<open>null\<close> converts to \<open>0\<close>, \<open>NaN\<close> compares false.\<close>

fun js_lt :: "jsval \<Rightarrow> rat \<Rightarrow> bool" where
  "js_lt JNull r = (0 < r)"
| "js_lt (JNum (Fin a)) r = (a < r)"
| "js_lt (JNum NaN) r = False"
| "js_lt (JNum PosInf) r = False"
| "js_lt (JNum NegInf) r = True"

fun finite_num :: "jsval \<Rightarrow> bool" where
  "finite_num (JNum (Fin r)) = True"
| "finite_num v = False"

text \<open>
  A string field that may be \<^verbatim>\<open>null\<close> or missing is a \<open>string option\<close>;
  \<^verbatim>\<open>if (s)\<close> holds for a non-empty string only.
\<close>

fun truthy_str :: "string option \<Rightarrow> bool" where
  "truthy_str None = False"
| "truthy_str (Some s) = (s \<noteq> [])"

subsection \<open>String methods\<close>

text \<open>
  \<^verbatim>\<open>startsWith\<close>, \<^verbatim>\<open>endsWith\<close>, \<^verbatim>\<open>includes\<close> and \<^verbatim>\<open>replace\<close> with a string
  pattern work on the sequence of code units, here the list of characters.
  \<^verbatim>\<open>s.replace(pat, rep)\<close> with a string pattern rewrites the first occurrence of
  \<open>pat\<close> only; the replacements used by the scripts contain no \<^verbatim>\<open>$\<close>, so they are
  inserted literally.
\<close>

fun startsWith :: "string \<Rightarrow> string \<Rightarrow> bool" where
  "startsWith s [] = True"
| "startsWith [] (c # cs) = False"
| "startsWith (x # xs) (c # cs) = (x = c \<and> startsWith xs cs)"

definition endsWith :: "string \<Rightarrow> string \<Rightarrow> bool" where
  "endsWith s pat = startsWith (rev s) (rev pat)"

fun includes_str :: "string \<Rightarrow> string \<Rightarrow> bool" where
  "includes_str [] pat = (pat = [])"
| "includes_str (x # xs) pat = (startsWith (x # xs) pat \<or> includes_str xs pat)"

fun replace_str :: "string \<Rightarrow> string \<Rightarrow> string \<Rightarrow> string" where
  "replace_str [] pat rep = (if pat = [] then rep else [])"
| "replace_str (x # xs) pat rep =
     (if startsWith (x # xs) pat then rep @ drop (length pat) (x # xs)
      else x # replace_str xs pat rep)"

section \<open>Property records\<close>

text \<open>
  The objects pushed by \<^verbatim>\<open>scrape_and_geocode.js\<close> (lines 149-158), with the
  \<^verbatim>\<open>zip_code\<close> field that \<^verbatim>\<open>add_zipcodes.js\<close> adds. \<open>address\<close> is always a string
  there (\<^verbatim>\<open>outputAddress\<close>); \<open>title\<close> may be \<^verbatim>\<open>null\<close>.
\<close>

record property =
  title :: "string option"
  url :: string
  image_url :: "string option"
  description :: "string option"
  address :: string
  location_field :: "string option"
  lat :: jsval
  lon :: jsval
  zip_code :: "string option"

definition ADDRESS_NOT_FOUND :: string where
  "ADDRESS_NOT_FOUND = ''Address Not Found''"

text \<open>
  The collection is kept in a file: \<^verbatim>\<open>JSON.stringify\<close> writes it and \<^verbatim>\<open>JSON.parse\<close>
  reads it. A finite number comes back as it was; \<open>NaN\<close> and the infinities are written
  as \<^verbatim>\<open>null\<close>. Strings, \<^verbatim>\<open>null\<close> and a missing field come back as they were.
  \<open>written p\<close> is the record \<open>p\<close> as it stands in the file, and \<open>from_json p\<close> says that
  \<open>p\<close> can have been read from one.
\<close>

fun json_number :: "jsval \<Rightarrow> jsval" where
  "json_number (JNum (Fin r)) = JNum (Fin r)"
| "json_number v = JNull"

definition written :: "property \<Rightarrow> property" where
  "written p = p\<lparr>lat := json_number (lat p), lon := json_number (lon p)\<rparr>"

definition from_json :: "property \<Rightarrow> bool" where
  "from_json p = (json_number (lat p) = lat p \<and> json_number (lon p) = lon p)"

section \<open>The outside world: requests, timer waits and replies\<close>

text \<open>
  The scripts run sequentially. What they do to the outside is recorded as a log of
  events, most recent first: a timer wait \<^verbatim>\<open>setTimeout(r, ms)\<close> that the script
  awaits, or an HTTP request. \<open>sent\<close> counts the requests made so far. The reply to a
  request is given by an oracle that may depend on how many requests came before and on
  the request itself, so that a service may fail once and answer later.
  Console output is not modelled.
\<close>

datatype request = Search string | Reverse jsval jsval

datatype event = Sleep nat | Request request

record world =
  sent :: nat
  events :: "event list"

definition sleep :: "nat \<Rightarrow> world \<Rightarrow> world" where
  "sleep ms w = w\<lparr>events := Sleep ms # events w\<rparr>"

definition issue :: "request \<Rightarrow> world \<Rightarrow> world" where
  "issue r w = w\<lparr>sent := Suc (sent w), events := Request r # events w\<rparr>"

text \<open>
  What the body of \<^verbatim>\<open>geocodeAddress\<close> can meet after \<^verbatim>\<open>fetch\<close>:
  \<^item> \<open>FetchThrows\<close>: \<^verbatim>\<open>fetch\<close> rejects (network failure);
  \<^item> \<open>NotOk\<close>: \<^verbatim>\<open>response.ok\<close> is false, the script throws;
  \<^item> \<open>JsonThrows\<close>: \<^verbatim>\<open>response.json()\<close> rejects;
  \<^item> \<open>NoHits\<close>: \<^verbatim>\<open>data && data.length > 0\<close> is false;
  \<^item> \<open>HitThrows\<close>: \<^verbatim>\<open>data[0]\<close> is \<^verbatim>\<open>null\<close> or missing, reading \<^verbatim>\<open>.lat\<close> throws;
  \<^item> \<open>Hit a b\<close>: \<^verbatim>\<open>parseFloat(data[0].lat)\<close> is \<open>a\<close> and \<^verbatim>\<open>parseFloat(data[0].lon)\<close>
    is \<open>b\<close> (\<open>NaN\<close> when the field is missing or does not start with a number).
\<close>

datatype search_reply = FetchThrows | NotOk | JsonThrows | NoHits | HitThrows | Hit jnum jnum

type_synonym search_oracle = "nat \<Rightarrow> string \<Rightarrow> search_reply"

text \<open>
  The same for \<^verbatim>\<open>reverseGeocode\<close>; \<open>NoPostcode\<close> is a reply where
  \<^verbatim>\<open>data && data.address && data.address.postcode\<close> is falsy for lack of a field,
  \<open>Postcode z\<close> one whose \<^verbatim>\<open>postcode\<close> field is the string \<open>z\<close>.
\<close>

datatype reverse_reply = RFetchThrows | RNotOk | RJsonThrows | NoPostcode | Postcode string

type_synonym reverse_oracle = "nat \<Rightarrow> jsval \<Rightarrow> jsval \<Rightarrow> reverse_reply"

text \<open>
  The value \<^verbatim>\<open>geocodeAddress\<close> returns for a reply: the parsed pair for a hit, and
  \<^verbatim>\<open>{ lat: null, lon: null }\<close> on every other path (the \<^verbatim>\<open>catch\<close> only logs).
\<close>

fun coords_of :: "search_reply \<Rightarrow> jsval \<times> jsval" where
  "coords_of (Hit a b) = (JNum a, JNum b)"
| "coords_of r = (JNull, JNull)"

section \<open>Corrective re-resolution (\<^verbatim>\<open>unnamed/part_000\<close>)\<close>

text \<open>\<^verbatim>\<open>Object.entries(STATE_MAP)\<close> lists the entries in insertion order.\<close>

definition STATE_MAP :: "(string \<times> string) list" where
  "STATE_MAP =
     [(''MI'', ''Michigan''), (''IN'', ''Indiana''), (''OH'', ''Ohio''), (''FL'', ''Florida''),
      (''MA'', ''Massachusetts''), (''MD'', ''Maryland''), (''USA'', ''USA'')]"

text \<open>Lines 22-27: the first entry whose abbreviation ends the query rewrites it.\<close>

fun expandLoop :: "(string \<times> string) list \<Rightarrow> string \<Rightarrow> string" where
  "expandLoop [] query = query"
| "expandLoop ((abbr, full) # rest) query =
     (if endsWith query ('' '' @ abbr) then replace_str query ('' '' @ abbr) ('' '' @ full)
      else expandLoop rest query)"

definition expandState :: "string \<Rightarrow> string" where
  "expandState query = expandLoop STATE_MAP query"

text \<open>
  Lines 17-46. No timer wait happens inside this function. \<^verbatim>\<open>encodeURIComponent\<close>
  is inside the \<^verbatim>\<open>try\<close>, and strings are taken to be well formed.
\<close>

definition geocodeAddress_fix :: "search_oracle \<Rightarrow> string \<Rightarrow> world \<Rightarrow> (jsval \<times> jsval) \<times> world" where
  "geocodeAddress_fix net query w =
     (if query = [] then ((JNull, JNull), w)
      else let q = expandState query
           in (coords_of (net (sent w) q), issue (Search q) w))"

text \<open>Lines 59-70.\<close>

definition needsUpdate :: "property \<Rightarrow> bool" where
  "needsUpdate p =
     (if lat p = JNull \<or> lon p = JNull then True
      else if includes_str (address p) '', MI'' \<and> js_lt (lat p) 41 then True
      else False)"

text \<open>Lines 74-86.\<close>

definition queries :: "property \<Rightarrow> string list" where
  "queries p =
     (if address p \<noteq> [] \<and> address p \<noteq> ADDRESS_NOT_FOUND
      then [address p @ '', USA''] @
           (if truthy_str (title p) then [the (title p) @ '', '' @ address p @ '', USA''] else [])
      else []) @
     (if truthy_str (title p) then [the (title p) @ '', USA''] else [])"

text \<open>Line 93: the sanity check applied to a result, on the query as built (not expanded).\<close>

definition suspicious :: "string \<Rightarrow> jsval \<Rightarrow> bool" where
  "suspicious q la = (includes_str q ''Michigan'' \<and> js_lt la 41)"

text \<open>
  Lines 88-106, returning \<open>found\<close>, the record and the world. \<^verbatim>\<open>continue\<close> on a
  suspicious result goes to the next query without the wait of line 105; \<^verbatim>\<open>break\<close>
  on acceptance leaves the loop without it as well.
\<close>

fun tryQueries :: "search_oracle \<Rightarrow> string list \<Rightarrow> property \<Rightarrow> world \<Rightarrow> bool \<times> property \<times> world" where
  "tryQueries net [] p w = (False, p, w)"
| "tryQueries net (q # qs) p w =
     (let (coords, w1) = geocodeAddress_fix net q w
      in if truthy (fst coords)
         then if suspicious q (fst coords) then tryQueries net qs p w1
              else (True, p\<lparr>lat := fst coords, lon := snd coords\<rparr>, w1)
         else tryQueries net qs p (sleep 1000 w1))"

text \<open>The body of the loop over the properties (lines 58-112) and the loop itself.\<close>

definition fixOne :: "search_oracle \<Rightarrow> property \<Rightarrow> world \<Rightarrow> property \<times> world" where
  "fixOne net p w =
     (if needsUpdate p then snd (tryQueries net (queries p) p w) else (p, w))"

fun fixAll :: "search_oracle \<Rightarrow> property list \<Rightarrow> world \<Rightarrow> property list \<times> world" where
  "fixAll net [] w = ([], w)"
| "fixAll net (p # ps) w =
     (let (p', w1) = fixOne net p w; (ps', w2) = fixAll net ps w1
      in (p' # ps', w2))"

text \<open>
  The script (lines 48-116) from the collection it parsed on line 54 to the collection
  it writes on line 114.
\<close>

definition fixScript :: "search_oracle \<Rightarrow> property list \<Rightarrow> world \<Rightarrow> property list \<times> world" where
  "fixScript net properties w =
     (let (ps, w1) = fixAll net properties w in (map written ps, w1))"

section \<open>Postal enrichment (\<^verbatim>\<open>add_zipcodes.js\<close>)\<close>

text \<open>Lines 6-23. The result is \<^verbatim>\<open>null\<close> or a truthy postcode.\<close>

definition reverseGeocode :: "reverse_oracle \<Rightarrow> jsval \<Rightarrow> jsval \<Rightarrow> world \<Rightarrow> string option \<times> world" where
  "reverseGeocode net la lo w =
     (if \<not> truthy la \<or> \<not> truthy lo then (None, w)
      else (case net (sent w) la lo of
              Postcode z \<Rightarrow> if z \<noteq> [] then Some z else None
            | _ \<Rightarrow> None,
            issue (Reverse la lo) w))"

text \<open>Lines 32-48: the body of the loop, and the loop.\<close>

definition enrichOne :: "reverse_oracle \<Rightarrow> property \<Rightarrow> world \<Rightarrow> property \<times> world" where
  "enrichOne net p w =
     (if \<not> truthy_str (zip_code p) \<and> truthy (lat p) \<and> truthy (lon p)
      then let (zip, w1) = reverseGeocode net (lat p) (lon p) w;
               p' = (if truthy_str zip
                     then p\<lparr>zip_code := zip, address := address p @ '' '' @ the zip\<rparr>
                     else p)
           in (p', sleep 1000 w1)
      else (p, w))"

fun enrichAll :: "reverse_oracle \<Rightarrow> property list \<Rightarrow> world \<Rightarrow> property list \<times> world" where
  "enrichAll net [] w = ([], w)"
| "enrichAll net (p # ps) w =
     (let (p', w1) = enrichOne net p w; (ps', w2) = enrichAll net ps w1
      in (p' # ps', w2))"

text \<open>
  The script (lines 25-52) from the collection it parsed on line 27 to the collection
  it writes on line 50.
\<close>

definition enrichScript :: "reverse_oracle \<Rightarrow> property list \<Rightarrow> world \<Rightarrow> property list \<times> world" where
  "enrichScript net properties w =
     (let (ps, w1) = enrichAll net properties w in (map written ps, w1))"

section \<open>Initial geocode (\<^verbatim>\<open>scrape_and_geocode.js\<close>)\<close>

text \<open>Lines 37-56: the wait of one second is inside the function, before the request.\<close>

definition geocodeAddress_scrape :: "search_oracle \<Rightarrow> string \<Rightarrow> world \<Rightarrow> (jsval \<times> jsval) \<times> world" where
  "geocodeAddress_scrape net query w =
     (let w1 = sleep 1000 w
      in (coords_of (net (sent w1) query), issue (Search query) w1))"

text \<open>
  Line 118: \<^verbatim>\<open>replace(/&#\d+;/g, "")\<close> removes every numeric character reference.
  \<open>entity_len s\<close> is the length of the match of \<^verbatim>\<open>&#\d+;\<close> at the start of \<open>s\<close>, if any.
\<close>

definition is_digit :: "char \<Rightarrow> bool" where
  "is_digit c = (c \<in> set ''0123456789'')"

definition entity_len :: "string \<Rightarrow> nat option" where
  "entity_len s =
     (if startsWith s ''&#''
      then let ds = takeWhile is_digit (drop 2 s)
           in if ds \<noteq> [] \<and> startsWith (drop (2 + length ds) s) '';''
              then Some (3 + length ds) else None
      else None)"

fun strip_entities :: "string \<Rightarrow> string" where
  "strip_entities [] = []"
| "strip_entities (x # xs) =
     (case entity_len (x # xs) of
        Some n \<Rightarrow> strip_entities (drop (n - 1) xs)
      | None \<Rightarrow> x # strip_entities xs)"

datatype js_error = TypeError

text \<open>
  Lines 89-158 for one page, from the extracted \<open>title\<close> and \<open>location\<close> (the value of
  \<^verbatim>\<open>location\<close> after line 101; the pattern matching that extracts them is not
  modelled). With no location and a \<^verbatim>\<open>null\<close> title, \<^verbatim>\<open>title.includes\<close> on line 122
  throws.
\<close>

definition outputAddress :: "string option \<Rightarrow> string" where
  "outputAddress location =
     (let a = (if truthy_str location then the location else ADDRESS_NOT_FOUND)
      in if a \<noteq> ADDRESS_NOT_FOUND then strip_entities a else a)"

definition geocodeQuery :: "string option \<Rightarrow> string \<Rightarrow> string option" where
  "geocodeQuery ttl addr =
     (if truthy_str ttl \<and> addr \<noteq> ADDRESS_NOT_FOUND then Some (the ttl @ '', '' @ addr)
      else if addr \<noteq> ADDRESS_NOT_FOUND then Some addr
      else ttl)"

definition processPage ::
  "search_oracle \<Rightarrow> string option \<Rightarrow> string \<Rightarrow> string option \<Rightarrow> string option \<Rightarrow> string option
     \<Rightarrow> world \<Rightarrow> js_error + (property \<times> world)" where
  "processPage net ttl u img descr location w =
     (let a0 = (if truthy_str location then the location else ADDRESS_NOT_FOUND)
      in if a0 = ADDRESS_NOT_FOUND \<and> ttl = None then Inl TypeError
         else
           let addr = outputAddress location;
               q = geocodeQuery ttl addr;
               (coords, w2) =
                 (if truthy_str q
                  then let (c1, w1) = geocodeAddress_scrape net (the q) w
                       in if \<not> truthy (fst c1) \<and> truthy_str location
                          then geocodeAddress_scrape net (the location) w1
                          else (c1, w1)
                  else ((JNull, JNull), w))
           in Inr (\<lparr>title = ttl, url = u, image_url = img, description = descr,
                    address = addr, location_field = location,
                    lat = fst coords, lon = snd coords, zip_code = None\<rparr>, w2))"

section \<open>Notions used in the statements\<close>

text \<open>
  A returned pair is taken by the loop of lines 88-106 when its latitude is truthy
  (line 91) and the sanity check of line 93 does not fire.
\<close>

definition acceptable :: "string \<Rightarrow> jsval \<times> jsval \<Rightarrow> bool" where
  "acceptable q c = (truthy (fst c) \<and> \<not> suspicious q (fst c))"

text \<open>
  Read from the description of the orchestrator rather than from the loop: scanning the
  candidates in order, the \<open>n\<close>-th request being answered by \<open>net n\<close>, the pair of the
  first candidate whose answer is acceptable, and the candidates that get a request.
\<close>

fun firstAccepted :: "search_oracle \<Rightarrow> nat \<Rightarrow> string list \<Rightarrow> (jsval \<times> jsval) option" where
  "firstAccepted net n [] = None"
| "firstAccepted net n (q # qs) =
     (let c = coords_of (net n (expandState q))
      in if acceptable q c then Some c else firstAccepted net (Suc n) qs)"

fun triedQueries :: "search_oracle \<Rightarrow> nat \<Rightarrow> string list \<Rightarrow> string list" where
  "triedQueries net n [] = []"
| "triedQueries net n (q # qs) =
     q # (if acceptable q (coords_of (net n (expandState q))) then []
          else triedQueries net (Suc n) qs)"


text \<open>The requests of a log, oldest first.\<close>

fun requests_of :: "event list \<Rightarrow> request list" where
  "requests_of [] = []"
| "requests_of (Sleep ms # es) = requests_of es"
| "requests_of (Request r # es) = requests_of es @ [r]"

subsection \<open>Example inputs\<close>

definition w0 :: world where
  "w0 = \<lparr>sent = 0, events = []\<rparr>"

text \<open>A listing in Canton, Michigan that was resolved to Canton, Mississippi.\<close>

definition canton_ms :: property where
  "canton_ms =
     \<lparr>title = Some ''The Meadows at Canton'', url = ''https://gshrealestate.com/portfolio/meadows'',
      image_url = None, description = None,
      address = ''Canton, MI'', location_field = Some ''Canton, MI'',
      lat = JNum (Fin 32), lon = JNum (Fin (- 90)), zip_code = None\<rparr>"

text \<open>A listing with the state written out and no coordinates yet.\<close>

definition canton_unresolved :: property where
  "canton_unresolved =
     \<lparr>title = Some ''The Meadows at Canton'', url = ''https://gshrealestate.com/portfolio/meadows'',
      image_url = None, description = None,
      address = ''Canton, Michigan'', location_field = Some ''Canton, Michigan'',
      lat = JNull, lon = JNull, zip_code = None\<rparr>"

text \<open>A service that answers the first request with a place in Mississippi.\<close>

definition net_ms_first :: search_oracle where
  "net_ms_first n q =
     (if n = 0 then Hit (Fin (321 / 10)) (Fin (- 90))
      else Hit (Fin (4231 / 100)) (Fin (- (8348 / 100))))"

text \<open>A service whose first result lies on the equator.\<close>

definition net_zero :: search_oracle where
  "net_zero n q = Hit (Fin 0) (Fin 10)"

subsection \<open>Pacing of requests\<close>

text \<open>
  \<open>waited es\<close>: looking back from the present through the log \<open>es\<close>, a timer wait of
  at least 1000 ms comes before any request (or there was no request yet).
  \<open>paced es\<close>: every request of the log was made after such a wait since the request
  before it.
\<close>

fun waited :: "event list \<Rightarrow> bool" where
  "waited [] = True"
| "waited (Sleep ms # es) = (1000 \<le> ms \<or> waited es)"
| "waited (Request r # es) = False"

fun paced :: "event list \<Rightarrow> bool" where
  "paced [] = True"
| "paced (Sleep ms # es) = paced es"
| "paced (Request r # es) = (waited es \<and> paced es)"

subsection \<open>Well-formed coordinate pairs\<close>

definition pair_ok :: "property \<Rightarrow> bool" where
  "pair_ok p =
     ((lat p = JNull \<and> lon p = JNull) \<or> (finite_num (lat p) \<and> finite_num (lon p)))"

text \<open>A reply whose first result, if any, has a latitude and a longitude that parse to finite numbers.\<close>

fun finite_reply :: "search_reply \<Rightarrow> bool" where
  "finite_reply (Hit a b) = (finite_num (JNum a) \<and> finite_num (JNum b))"
| "finite_reply r = True"

text \<open>A service whose first result has a longitude that does not parse.\<close>

definition net_nan :: search_oracle where
  "net_nan n q = Hit (Fin (423 / 10)) NaN"

text \<open>A service whose first result has the latitude \<^verbatim>\<open>"Infinity"\<close> and no longitude.\<close>

definition net_inf :: search_oracle where
  "net_inf n q = Hit PosInf NaN"

text \<open>The same listing with coordinates in Michigan.\<close>

definition canton_mi :: property where
  "canton_mi =
     \<lparr>title = Some ''The Meadows at Canton'', url = ''https://gshrealestate.com/portfolio/meadows'',
      image_url = None, description = None,
      address = ''Canton, MI'', location_field = Some ''Canton, MI'',
      lat = JNum (Fin (4231 / 100)), lon = JNum (Fin (- (8348 / 100))), zip_code = None\<rparr>"

text \<open>A reverse-geocode service whose first request fails and that answers afterwards.\<close>

definition rnet_flaky :: reverse_oracle where
  "rnet_flaky n la lo = (if n = 0 then RFetchThrows else Postcode ''48187'')"

text \<open>A forward-geocode service that finds nothing, and one that finds Canton, Michigan.\<close>

definition net_none :: search_oracle where
  "net_none n q = NoHits"

definition net_mi :: search_oracle where
  "net_mi n q = Hit (Fin (4231 / 100)) (Fin (- (8348 / 100)))"

text \<open>A listing whose title and address are the same string.\<close>

definition same_title_address :: property where
  "same_title_address =
     \<lparr>title = Some ''Canton, MI'', url = ''https://gshrealestate.com/portfolio/canton'',
      image_url = None, description = None,
      address = ''Canton, MI'', location_field = Some ''Canton, MI'',
      lat = JNull, lon = JNull, zip_code = None\<rparr>"

subsection \<open>What one enrichment pass may do to a record\<close>

text \<open>
  Either nothing, or a record without a postal code gets one, appended to its address
  after a space.
\<close>

definition enriched :: "property \<Rightarrow> property \<Rightarrow> bool" where
  "enriched p p' =
     (p' = p \<or>
      (truthy_str (zip_code p') \<and> \<not> truthy_str (zip_code p) \<and>
       p' = p\<lparr>zip_code := zip_code p', address := address p @ '' '' @ the (zip_code p')\<rparr>))"

text \<open>A reverse-geocode service that knows the postal code of every place asked for.\<close>

definition rnet_48187 :: reverse_oracle where
  "rnet_48187 n la lo = Postcode ''48187''"

text \<open>The listing after a successful enrichment.\<close>

definition canton_zip :: property where
  "canton_zip = canton_mi\<lparr>zip_code := Some ''48187'', address := ''Canton, MI 48187''\<rparr>"

section \<open>Basic facts\<close>

lemma sent_issue [simp]: "sent (issue r w) = Suc (sent w)"
  by (simp add: issue_def)

lemma sent_sleep [simp]: "sent (sleep ms w) = sent w"
  by (simp add: sleep_def)

lemma events_issue [simp]: "events (issue r w) = Request r # events w"
  by (simp add: issue_def)

lemma events_sleep [simp]: "events (sleep ms w) = Sleep ms # events w"
  by (simp add: sleep_def)

lemma geocodeAddress_fix_nonempty:
  "q \<noteq> [] \<Longrightarrow>
     geocodeAddress_fix net q w =
       (coords_of (net (sent w) (expandState q)), issue (Search (expandState q)) w)"
  by (simp add: geocodeAddress_fix_def Let_def)

lemma queries_nonempty: "[] \<notin> set (queries p)"
  by (auto simp: queries_def)

section \<open>Selection for re-resolution\<close>

text \<open>
  Claim C1. A record is selected for re-resolution exactly when a coordinate is
  \<^verbatim>\<open>null\<close>, or both are present, the address contains \<^verbatim>\<open>", MI"\<close> and the latitude
  is below 41. On a record whose pair is fully present or fully absent this is: both
  are \<^verbatim>\<open>null\<close>, or both are finite numbers, the address contains the marker and the
  latitude is below 41. A record at (32.0, -90.0) with the marker is selected, one at
  (42.3, -83.4) with the marker is not.
\<close>

theorem needsUpdate_iff:
  "(needsUpdate p \<longleftrightarrow>
      (lat p = JNull \<or> lon p = JNull) \<or>
      (lat p \<noteq> JNull \<and> lon p \<noteq> JNull \<and> includes_str (address p) '', MI'' \<and> js_lt (lat p) 41)) \<and>
   (pair_ok p \<longrightarrow>
      (needsUpdate p \<longleftrightarrow>
         (lat p = JNull \<and> lon p = JNull) \<or>
         (finite_num (lat p) \<and> finite_num (lon p) \<and>
          includes_str (address p) '', MI'' \<and> js_lt (lat p) 41))) \<and>
   (includes_str (address p) '', MI'' \<longrightarrow>
      needsUpdate (p\<lparr>lat := JNum (Fin 32), lon := JNum (Fin (- 90))\<rparr>) \<and>
      \<not> needsUpdate (p\<lparr>lat := JNum (Fin (423 / 10)), lon := JNum (Fin (- (834 / 10)))\<rparr>))"
  by (auto simp: needsUpdate_def pair_ok_def)

theorem needsUpdate_iff_witness:
  "pair_ok canton_ms \<and> includes_str (address canton_ms) '', MI'' \<and> needsUpdate canton_ms \<and>
   \<not> needsUpdate (canton_ms\<lparr>lat := JNum (Fin (423 / 10)), lon := JNum (Fin (- (834 / 10)))\<rparr>)"
  using needsUpdate_iff [of canton_ms] by (simp add: canton_ms_def pair_ok_def)

section \<open>Expansion of region abbreviations\<close>










lemma includes_str_Cons: "includes_str s pat \<Longrightarrow> includes_str (x # s) pat"
  by simp








text \<open>
  Outside these strings, on one that ends with \<^verbatim>\<open>" MI"\<close> and has \<^verbatim>\<open>" MI"\<close> earlier
  as well, \<^verbatim>\<open>replace\<close> rewrites the earlier occurrence. The script never passes such
  a string, since every candidate ends with \<^verbatim>\<open>", USA"\<close>.
\<close>

lemma expandState_rewrites_first_occurrence:
  "endsWith ''Lake MI Apartments, Canton MI'' '' MI'' \<and>
   expandState ''Lake MI Apartments, Canton MI'' = ''Lake Michigan Apartments, Canton MI''"
  by (simp add: expandState_def STATE_MAP_def endsWith_def)

section \<open>The candidate loop\<close>

lemma tryQueries_step:
  "q \<noteq> [] \<Longrightarrow>
     tryQueries net (q # qs) p w =
       (let c = coords_of (net (sent w) (expandState q));
            w1 = issue (Search (expandState q)) w
        in if acceptable q c then (True, p\<lparr>lat := fst c, lon := snd c\<rparr>, w1)
           else if truthy (fst c) then tryQueries net qs p w1
           else tryQueries net qs p (sleep 1000 w1))"
  by (simp add: geocodeAddress_fix_nonempty acceptable_def Let_def)

lemma tryQueries_found:
  "[] \<notin> set qs \<Longrightarrow> fst (tryQueries net qs p w) = (firstAccepted net (sent w) qs \<noteq> None)"
proof (induction qs arbitrary: w)
  case Nil
  show ?case by simp
next
  case (Cons q qs)
  then have q: "q \<noteq> []" and qs: "[] \<notin> set qs" by auto
  show ?case
    using Cons.IH [OF qs, of "issue (Search (expandState q)) w"]
      Cons.IH [OF qs, of "sleep 1000 (issue (Search (expandState q)) w)"]
    by (simp add: tryQueries_step [OF q] Let_def del: tryQueries.simps)
qed

lemma tryQueries_record:
  "[] \<notin> set qs \<Longrightarrow>
     fst (snd (tryQueries net qs p w)) =
       (case firstAccepted net (sent w) qs of
          None \<Rightarrow> p
        | Some c \<Rightarrow> p\<lparr>lat := fst c, lon := snd c\<rparr>)"
proof (induction qs arbitrary: w)
  case Nil
  show ?case by simp
next
  case (Cons q qs)
  then have q: "q \<noteq> []" and qs: "[] \<notin> set qs" by auto
  show ?case
    using Cons.IH [OF qs, of "issue (Search (expandState q)) w"]
      Cons.IH [OF qs, of "sleep 1000 (issue (Search (expandState q)) w)"]
    by (simp add: tryQueries_step [OF q] Let_def del: tryQueries.simps)
qed

lemma tryQueries_requests:
  "[] \<notin> set qs \<Longrightarrow>
     requests_of (events (snd (snd (tryQueries net qs p w)))) =
       requests_of (events w) @ map (\<lambda>q. Search (expandState q)) (triedQueries net (sent w) qs)"
proof (induction qs arbitrary: w)
  case Nil
  show ?case by simp
next
  case (Cons q qs)
  then have q: "q \<noteq> []" and qs: "[] \<notin> set qs" by auto
  show ?case
    using Cons.IH [OF qs, of "issue (Search (expandState q)) w"]
      Cons.IH [OF qs, of "sleep 1000 (issue (Search (expandState q)) w)"]
    by (simp add: tryQueries_step [OF q] Let_def del: tryQueries.simps)
qed

lemma tryQueries_unchanged:
  "\<not> fst (tryQueries net qs p w) \<Longrightarrow> fst (snd (tryQueries net qs p w)) = p"
  by (induction qs arbitrary: w) (auto simp: Let_def split: prod.splits if_splits)

lemma tryQueries_cases:
  "fst (snd (tryQueries net qs p w)) = p \<or>
   (\<exists>a b. truthy (JNum a) \<and> fst (snd (tryQueries net qs p w)) = p\<lparr>lat := JNum a, lon := JNum b\<rparr>)"
proof (induction qs arbitrary: w)
  case Nil
  show ?case by simp
next
  case (Cons q qs)
  show ?case
  proof (cases "q = []")
    case True
    then show ?thesis using Cons.IH [of w] Cons.IH [of "sleep 1000 w"]
      by (simp add: geocodeAddress_fix_def)
  next
    case False
    show ?thesis
    proof (cases "net (sent w) (expandState q)")
      case (Hit a b)
      then show ?thesis
        using False Cons.IH [of "issue (Search (expandState q)) w"]
          Cons.IH [of "sleep 1000 (issue (Search (expandState q)) w)"]
        by (auto simp: geocodeAddress_fix_nonempty)
    qed (use False Cons.IH [of "sleep 1000 (issue (Search (expandState q)) w)"]
         in \<open>simp_all add: geocodeAddress_fix_nonempty\<close>)
  qed
qed

section \<open>Falsy coordinates in postal enrichment\<close>

text \<open>
  Claim C9. \<^verbatim>\<open>null\<close>, \<open>0\<close> and \<open>NaN\<close> are falsy. A record whose latitude or longitude
  is falsy is skipped by the enrichment loop: the record and the world (so the log of
  requests) are unchanged. \<^verbatim>\<open>reverseGeocode\<close> on a falsy latitude or longitude
  returns \<^verbatim>\<open>null\<close> and makes no request.
\<close>

theorem falsy_coordinates_skipped:
  "(\<not> truthy JNull \<and> \<not> truthy (JNum (Fin 0)) \<and> \<not> truthy (JNum NaN)) \<and>
   (\<not> truthy (lat p) \<or> \<not> truthy (lon p) \<longrightarrow> enrichOne net p w = (p, w)) \<and>
   (\<not> truthy la \<or> \<not> truthy lo \<longrightarrow> reverseGeocode net la lo w = (None, w))"
  by (auto simp: enrichOne_def reverseGeocode_def)

theorem falsy_coordinates_skipped_witness:
  "\<not> truthy (lat (canton_ms\<lparr>lat := JNum (Fin 0)\<rparr>)) \<and>
   enrichOne (\<lambda>n a b. Postcode ''48187'') (canton_ms\<lparr>lat := JNum (Fin 0)\<rparr>) w0 =
     (canton_ms\<lparr>lat := JNum (Fin 0)\<rparr>, w0) \<and>
   reverseGeocode (\<lambda>n a b. Postcode ''48187'') (JNum (Fin 0)) (JNum (Fin (- 90))) w0 = (None, w0)"
  using falsy_coordinates_skipped
    [of "canton_ms\<lparr>lat := JNum (Fin 0)\<rparr>" "\<lambda>n a b. Postcode ''48187''" w0
        "JNum (Fin 0)" "JNum (Fin (- 90))"]
  by (simp add: canton_ms_def)

section \<open>Acceptance and failure in re-resolution\<close>

text \<open>
  Claim C3, as the loop behaves. The candidates are tried in order, each with one
  forward-geocode request (on the expanded query); the record takes the pair of the first
  candidate whose returned latitude is truthy and not suspicious, and no later candidate
  is requested; a truthy latitude below 41 for a query containing \<^verbatim>\<open>"Michigan"\<close> is
  passed over (32.0 is, 42.3 is not) and the next candidate is tried. The candidate
  list of a record never contains the empty string.
\<close>

theorem tryQueries_first_acceptable:
  "([] \<notin> set qs \<longrightarrow>
      fst (tryQueries net qs p w) = (firstAccepted net (sent w) qs \<noteq> None) \<and>
      fst (snd (tryQueries net qs p w)) =
        (case firstAccepted net (sent w) qs of
           None \<Rightarrow> p
         | Some c \<Rightarrow> p\<lparr>lat := fst c, lon := snd c\<rparr>) \<and>
      requests_of (events (snd (snd (tryQueries net qs p w)))) =
        requests_of (events w) @ map (\<lambda>q. Search (expandState q)) (triedQueries net (sent w) qs)) \<and>
   [] \<notin> set (queries p) \<and>
   (includes_str q ''Michigan'' \<longrightarrow>
      \<not> acceptable q (JNum (Fin 32), lo) \<and> acceptable q (JNum (Fin (423 / 10)), lo))"
  by (simp add: tryQueries_found tryQueries_record tryQueries_requests queries_nonempty
        acceptable_def suspicious_def)

theorem tryQueries_first_acceptable_witness:
  "[] \<notin> set (queries canton_unresolved) \<and>
   includes_str (hd (queries canton_unresolved)) ''Michigan'' \<and>
   fst (tryQueries net_ms_first (queries canton_unresolved) canton_unresolved w0) \<and>
   fst (snd (tryQueries net_ms_first (queries canton_unresolved) canton_unresolved w0)) =
     canton_unresolved\<lparr>lat := JNum (Fin (4231 / 100)), lon := JNum (Fin (- (8348 / 100)))\<rparr> \<and>
   requests_of (events (snd (snd (tryQueries net_ms_first (queries canton_unresolved) canton_unresolved w0)))) =
     [Search ''Canton, Michigan, USA'', Search ''The Meadows at Canton, Canton, Michigan, USA'']"
  using tryQueries_first_acceptable
    [of "queries canton_unresolved" net_ms_first canton_unresolved w0]
  by (simp add: canton_unresolved_def queries_def ADDRESS_NOT_FOUND_def net_ms_first_def w0_def
        acceptable_def suspicious_def expandState_def STATE_MAP_def endsWith_def)

text \<open>
  A returned result with latitude 0 is not suspicious, yet it is not accepted: line 91
  treats it as no result.
\<close>

theorem zero_latitude_not_accepted:
  "net_zero 0 (expandState ''Equator Lodge, USA'') = Hit (Fin 0) (Fin 10) \<and>
   \<not> suspicious ''Equator Lodge, USA'' (JNum (Fin 0)) \<and>
   tryQueries net_zero [''Equator Lodge, USA''] canton_unresolved w0 =
     (False, canton_unresolved, sleep 1000 (issue (Search ''Equator Lodge, USA'') w0))"
  by (simp add: net_zero_def suspicious_def geocodeAddress_fix_def w0_def expandState_def
        STATE_MAP_def endsWith_def)

lemma firstAccepted_no_result:
  "\<forall>n q. \<not> truthy (fst (coords_of (net n q))) \<Longrightarrow> firstAccepted net n qs = None"
  by (induction qs arbitrary: n) (simp_all add: acceptable_def)

lemma fixOne_cases:
  "fst (fixOne net p w) = p \<or>
   (\<exists>a b. truthy (JNum a) \<and> fst (fixOne net p w) = p\<lparr>lat := JNum a, lon := JNum b\<rparr>)"
  using tryQueries_cases [of net "queries p" p w] by (simp add: fixOne_def)

lemma length_fixAll: "length (fst (fixAll net ps w)) = length ps"
  by (induction ps arbitrary: w) (simp_all add: split_def Let_def)

section \<open>Pacing of the requests\<close>

lemma events_geocodeAddress_scrape:
  "events (snd (geocodeAddress_scrape net q w)) = Request (Search q) # Sleep 1000 # events w"
  by (simp add: geocodeAddress_scrape_def Let_def)

lemma paced_geocodeAddress_scrape:
  "paced (events w) \<Longrightarrow> paced (events (snd (geocodeAddress_scrape net q w)))"
  by (simp add: events_geocodeAddress_scrape)

lemma paced_processPage:
  "processPage net ttl u img descr location w = Inr (p, w') \<Longrightarrow> paced (events w)
     \<Longrightarrow> paced (events w')"
  by (auto simp: processPage_def Let_def split_def events_geocodeAddress_scrape
        split: if_splits)

lemma events_reverseGeocode:
  "truthy la \<Longrightarrow> truthy lo \<Longrightarrow>
     events (snd (reverseGeocode net la lo w)) = Request (Reverse la lo) # events w"
  by (simp add: reverseGeocode_def)

lemma enrichOne_events:
  "events (snd (enrichOne net p w)) = events w \<or>
   events (snd (enrichOne net p w)) = Sleep 1000 # Request (Reverse (lat p) (lon p)) # events w"
  by (simp add: enrichOne_def reverseGeocode_def Let_def)

lemma paced_enrichOne:
  "paced (events w) \<and> waited (events w) \<Longrightarrow>
     paced (events (snd (enrichOne net p w))) \<and> waited (events (snd (enrichOne net p w)))"
  using enrichOne_events [of net p w] by auto

lemma paced_enrichAll:
  "paced (events w) \<and> waited (events w) \<Longrightarrow>
     paced (events (snd (enrichAll net ps w))) \<and> waited (events (snd (enrichAll net ps w)))"
proof (induction ps arbitrary: w)
  case Nil
  then show ?case by simp
next
  case (Cons p ps)
  from paced_enrichOne [OF Cons.prems, of net p]
  have "paced (events (snd (enrichAll net ps (snd (enrichOne net p w))))) \<and>
        waited (events (snd (enrichAll net ps (snd (enrichOne net p w)))))"
    by (rule Cons.IH)
  then show ?case by (simp add: split_def Let_def)
qed

text \<open>
  Claim C5, as the scripts pace their requests. In \<^verbatim>\<open>scrape_and_geocode.js\<close> the wait
  of 1000 ms is inside \<^verbatim>\<open>geocodeAddress\<close>, before the request, so a paced log stays
  paced through any call of it and through the processing of a page. \<^verbatim>\<open>reverseGeocode\<close>
  and the \<^verbatim>\<open>geocodeAddress\<close> of the re-resolution script make their request without
  any wait of their own. The enrichment loop waits 1000 ms after every call, so its log
  stays paced. The re-resolution loop waits 1000 ms after a candidate whose call returned
  no truthy latitude, before the next candidate.
\<close>

theorem pacing_as_implemented:
  "events (snd (geocodeAddress_scrape net q w)) = Request (Search q) # Sleep 1000 # events w \<and>
   (paced (events w) \<longrightarrow> paced (events (snd (geocodeAddress_scrape net q w)))) \<and>
   (processPage net ttl u img descr location w = Inr (p', w') \<and> paced (events w)
      \<longrightarrow> paced (events w')) \<and>
   (truthy la \<and> truthy lo \<longrightarrow>
      events (snd (reverseGeocode rnet la lo w)) = Request (Reverse la lo) # events w) \<and>
   (paced (events w) \<and> waited (events w) \<longrightarrow>
      paced (events (snd (enrichAll rnet ps w))) \<and> waited (events (snd (enrichAll rnet ps w)))) \<and>
   (q \<noteq> [] \<longrightarrow>
      events (snd (geocodeAddress_fix net q w)) = Request (Search (expandState q)) # events w) \<and>
   (q \<noteq> [] \<and> \<not> truthy (fst (coords_of (net (sent w) (expandState q)))) \<longrightarrow>
      tryQueries net (q # qs) p w =
        tryQueries net qs p (sleep 1000 (issue (Search (expandState q)) w)))"
proof -
  have a: "processPage net ttl u img descr location w = Inr (p', w') \<and> paced (events w)
      \<longrightarrow> paced (events w')"
    using paced_processPage by blast
  have b: "paced (events w) \<and> waited (events w) \<longrightarrow>
      paced (events (snd (enrichAll rnet ps w))) \<and> waited (events (snd (enrichAll rnet ps w)))"
    using paced_enrichAll by blast
  have c: "q \<noteq> [] \<longrightarrow>
      events (snd (geocodeAddress_fix net q w)) = Request (Search (expandState q)) # events w"
    by (simp add: geocodeAddress_fix_nonempty)
  have d: "q \<noteq> [] \<and> \<not> truthy (fst (coords_of (net (sent w) (expandState q)))) \<longrightarrow>
      tryQueries net (q # qs) p w =
        tryQueries net qs p (sleep 1000 (issue (Search (expandState q)) w))"
    by (simp add: geocodeAddress_fix_nonempty)
  have e: "truthy la \<and> truthy lo \<longrightarrow>
      events (snd (reverseGeocode rnet la lo w)) = Request (Reverse la lo) # events w"
    by (simp add: events_reverseGeocode)
  have f: "paced (events w) \<longrightarrow> paced (events (snd (geocodeAddress_scrape net q w)))"
    by (simp add: paced_geocodeAddress_scrape)
  from a b c d e f show ?thesis
    by (simp only: events_geocodeAddress_scrape simp_thms)
qed

theorem pacing_as_implemented_witness:
  "paced (events w0) \<and> waited (events w0) \<and>
   events (snd (geocodeAddress_scrape net_none ''Canton, MI, USA'' w0)) =
     [Request (Search ''Canton, MI, USA''), Sleep 1000] \<and>
   paced (events (snd (geocodeAddress_scrape net_none ''Canton, MI, USA'' w0))) \<and>
   processPage net_none (Some ''The Meadows at Canton'') ''u'' None None (Some ''Canton, MI'') w0 =
     Inr (canton_unresolved\<lparr>url := ''u'', address := ''Canton, MI'', location_field := Some ''Canton, MI''\<rparr>,
          \<lparr>sent = 2, events = [Request (Search ''Canton, MI''), Sleep 1000,
              Request (Search ''The Meadows at Canton, Canton, MI''), Sleep 1000]\<rparr>) \<and>
   paced [Request (Search ''Canton, MI''), Sleep 1000,
          Request (Search ''The Meadows at Canton, Canton, MI''), Sleep 1000] \<and>
   truthy (lat canton_mi) \<and> truthy (lon canton_mi) \<and>
   events (snd (reverseGeocode rnet_flaky (lat canton_mi) (lon canton_mi) w0)) =
     [Request (Reverse (lat canton_mi) (lon canton_mi))] \<and>
   paced (events (snd (enrichAll rnet_flaky [canton_mi, canton_mi] w0))) \<and>
   events (snd (geocodeAddress_fix net_none ''Canton, MI, USA'' w0)) =
     [Request (Search ''Canton, MI, USA'')] \<and>
   tryQueries net_none [''Canton, MI, USA''] canton_ms w0 =
     (False, canton_ms, sleep 1000 (issue (Search ''Canton, MI, USA'') w0))"
proof -
  note th = pacing_as_implemented
    [where net = net_none and q = "''Canton, MI, USA''" and w = w0
       and ttl = "Some ''The Meadows at Canton''" and u = "''u''" and img = None and descr = None
       and location = "Some ''Canton, MI''"
       and p' = "canton_unresolved\<lparr>url := ''u'', address := ''Canton, MI'', location_field := Some ''Canton, MI''\<rparr>"
       and w' = "\<lparr>sent = 2, events = [Request (Search ''Canton, MI''), Sleep 1000,
              Request (Search ''The Meadows at Canton, Canton, MI''), Sleep 1000]\<rparr>"
       and la = "lat canton_mi" and lo = "lon canton_mi" and rnet = rnet_flaky
       and ps = "[canton_mi, canton_mi]" and qs = "[]" and p = canton_ms]
  have w: "paced (events w0)" "waited (events w0)"
    by (simp_all add: w0_def)
  have pg: "processPage net_none (Some ''The Meadows at Canton'') ''u'' None None (Some ''Canton, MI'') w0 =
     Inr (canton_unresolved\<lparr>url := ''u'', address := ''Canton, MI'', location_field := Some ''Canton, MI''\<rparr>,
          \<lparr>sent = 2, events = [Request (Search ''Canton, MI''), Sleep 1000,
              Request (Search ''The Meadows at Canton, Canton, MI''), Sleep 1000]\<rparr>)"
    by (simp add: processPage_def outputAddress_def geocodeQuery_def ADDRESS_NOT_FOUND_def
          entity_len_def geocodeAddress_scrape_def net_none_def w0_def canton_unresolved_def
          sleep_def issue_def Let_def numeral_2_eq_2)
  have tr: "truthy (lat canton_mi)" "truthy (lon canton_mi)"
    by (simp_all add: canton_mi_def)
  have ex: "expandState ''Canton, MI, USA'' = ''Canton, MI, USA''"
    by (simp add: expandState_def STATE_MAP_def endsWith_def)
  have nr: "''Canton, MI, USA'' \<noteq> [] \<and>
            \<not> truthy (fst (coords_of (net_none (sent w0) (expandState ''Canton, MI, USA''))))"
    by (simp add: net_none_def)
  from th w pg tr nr show ?thesis
    by (simp add: ex w0_def)
qed

text \<open>
  In the re-resolution loop a suspicious result is followed at once by the request for
  the next candidate: two requests with no wait between them.
\<close>

theorem reresolution_requests_back_to_back:
  "events (snd (fixOne net_ms_first canton_unresolved w0)) =
     [Request (Search ''The Meadows at Canton, Canton, Michigan, USA''),
      Request (Search ''Canton, Michigan, USA'')] \<and>
   \<not> paced (events (snd (fixOne net_ms_first canton_unresolved w0)))"
  by (simp add: fixOne_def needsUpdate_def canton_unresolved_def queries_def ADDRESS_NOT_FOUND_def
        net_ms_first_def w0_def geocodeAddress_fix_def suspicious_def expandState_def
        STATE_MAP_def endsWith_def issue_def)

section \<open>The coordinate pair\<close>

lemma coords_of_finite:
  "finite_reply r \<Longrightarrow>
     (fst (coords_of r) = JNull \<and> snd (coords_of r) = JNull) \<or>
     (finite_num (fst (coords_of r)) \<and> finite_num (snd (coords_of r)))"
  by (cases r) simp_all

lemma firstAccepted_finite:
  "\<forall>n q. finite_reply (net n q) \<Longrightarrow> firstAccepted net n qs = Some c
     \<Longrightarrow> finite_num (fst c) \<and> finite_num (snd c)"
proof (induction qs arbitrary: n)
  case Nil
  then show ?case by simp
next
  case (Cons q qs)
  show ?case
  proof (cases "acceptable q (coords_of (net n (expandState q)))")
    case True
    with Cons.prems have c: "c = coords_of (net n (expandState q))" by simp
    from True have "truthy (fst (coords_of (net n (expandState q))))"
      by (simp add: acceptable_def)
    then have "fst (coords_of (net n (expandState q))) \<noteq> JNull" by auto
    with coords_of_finite [of "net n (expandState q)"] Cons.prems(1) c
    show ?thesis by auto
  next
    case False
    with Cons.prems have "firstAccepted net (Suc n) qs = Some c" by simp
    with Cons.IH Cons.prems(1) show ?thesis by blast
  qed
qed

lemma pair_ok_fixOne:
  assumes "\<forall>n q. finite_reply (net n q)" and "pair_ok p"
  shows "pair_ok (fst (fixOne net p w))"
proof (cases "needsUpdate p")
  case False
  with assms show ?thesis by (simp add: fixOne_def)
next
  case True
  show ?thesis
  proof (cases "firstAccepted net (sent w) (queries p)")
    case None
    with True assms show ?thesis
      by (simp add: fixOne_def tryQueries_record queries_nonempty)
  next
    case (Some c)
    from firstAccepted_finite [OF assms(1) Some] Some True show ?thesis
      by (simp add: fixOne_def tryQueries_record queries_nonempty pair_ok_def)
  qed
qed

lemma coords_geocodeAddress_scrape:
  "fst (geocodeAddress_scrape net q w) = coords_of (net (sent w) q)"
  by (simp add: geocodeAddress_scrape_def Let_def)

lemma pair_ok_processPage:
  assumes "\<forall>n q. finite_reply (net n q)"
    and "processPage net ttl u img descr location w = Inr (p, w')"
  shows "pair_ok p"
proof -
  have fin: "\<And>q w. (fst (fst (geocodeAddress_scrape net q w)) = JNull \<and>
                     snd (fst (geocodeAddress_scrape net q w)) = JNull) \<or>
                    (finite_num (fst (fst (geocodeAddress_scrape net q w))) \<and>
                     finite_num (snd (fst (geocodeAddress_scrape net q w))))"
    using assms(1) coords_of_finite by (simp add: coords_geocodeAddress_scrape)
  from assms(2) show ?thesis
    using fin [of "the (geocodeQuery ttl (outputAddress location))" w]
      fin [of "the location"
              "snd (geocodeAddress_scrape net (the (geocodeQuery ttl (outputAddress location))) w)"]
    by (auto simp: processPage_def Let_def split_def pair_ok_def split: if_splits)
qed

lemma enrichOne_coordinates:
  "lat (fst (enrichOne rnet p w)) = lat p \<and> lon (fst (enrichOne rnet p w)) = lon p"
  by (simp add: enrichOne_def Let_def split_def)

text \<open>
  Claim C6, under the interface of the service. If every first result of the service has
  a latitude and a longitude that parse to finite numbers, then the record made from a
  page has a pair that is fully present (both finite) or fully absent (both
  \<^verbatim>\<open>null\<close>), and re-resolution and enrichment keep a pair that is so.
\<close>

theorem pair_ok_preserved:
  "(\<forall>n q. finite_reply (net n q)) \<longrightarrow>
     (processPage net ttl u img descr location w = Inr (p', w') \<longrightarrow> pair_ok p') \<and>
     (pair_ok p \<longrightarrow> pair_ok (fst (fixOne net p w))) \<and>
     (pair_ok p \<longrightarrow> pair_ok (fst (enrichOne rnet p w)))"
  using pair_ok_processPage [of net ttl u img descr location w p' w']
    pair_ok_fixOne [of net p w] enrichOne_coordinates [of rnet p w]
  by (simp add: pair_ok_def)

theorem pair_ok_preserved_witness:
  "(\<forall>n q. finite_reply (net_mi n q)) \<and> pair_ok canton_unresolved \<and>
   pair_ok (fst (fixOne net_mi canton_unresolved w0)) \<and>
   pair_ok (fst (enrichOne rnet_flaky canton_unresolved w0)) \<and>
   processPage net_mi (Some ''The Meadows at Canton'') ''u'' None None (Some ''Canton, MI'') w0 =
     Inr (canton_mi\<lparr>url := ''u''\<rparr>,
          \<lparr>sent = 1, events = [Request (Search ''The Meadows at Canton, Canton, MI''), Sleep 1000]\<rparr>) \<and>
   pair_ok (canton_mi\<lparr>url := ''u''\<rparr>)"
proof -
  note th = pair_ok_preserved
    [where net = net_mi and w = w0
       and ttl = "Some ''The Meadows at Canton''" and u = "''u''" and img = None and descr = None
       and location = "Some ''Canton, MI''"
       and p' = "canton_mi\<lparr>url := ''u''\<rparr>"
       and w' = "\<lparr>sent = 1, events = [Request (Search ''The Meadows at Canton, Canton, MI''), Sleep 1000]\<rparr>"
       and rnet = rnet_flaky and p = canton_unresolved]
  have fin: "\<forall>n q. finite_reply (net_mi n q)"
    by (simp add: net_mi_def)
  have ok: "pair_ok canton_unresolved"
    by (simp add: pair_ok_def canton_unresolved_def)
  have pg: "processPage net_mi (Some ''The Meadows at Canton'') ''u'' None None (Some ''Canton, MI'') w0 =
     Inr (canton_mi\<lparr>url := ''u''\<rparr>,
          \<lparr>sent = 1, events = [Request (Search ''The Meadows at Canton, Canton, MI''), Sleep 1000]\<rparr>)"
    by (simp add: processPage_def outputAddress_def geocodeQuery_def ADDRESS_NOT_FOUND_def
          entity_len_def geocodeAddress_scrape_def net_mi_def w0_def canton_mi_def
          sleep_def issue_def Let_def)
  from th fin ok pg show ?thesis by blast
qed

text \<open>
  The scripts do not check the parsed numbers: a result with latitude 42.3 and a
  longitude that does not parse is stored as (42.3, \<open>NaN\<close>).
\<close>

theorem unparsed_longitude_stored:
  "pair_ok canton_unresolved \<and>
   lat (fst (fixOne net_nan canton_unresolved w0)) = JNum (Fin (423 / 10)) \<and>
   lon (fst (fixOne net_nan canton_unresolved w0)) = JNum NaN \<and>
   \<not> pair_ok (fst (fixOne net_nan canton_unresolved w0))"
  by (simp add: pair_ok_def fixOne_def needsUpdate_def canton_unresolved_def queries_def
        ADDRESS_NOT_FOUND_def net_nan_def w0_def geocodeAddress_fix_def suspicious_def
        expandState_def STATE_MAP_def endsWith_def)

section \<open>Failed re-resolution and the written collection\<close>

lemma written_id: "from_json p \<Longrightarrow> written p = p"
  by (simp add: from_json_def written_def)

lemma json_number_finite: "finite_num v \<Longrightarrow> json_number v = v"
  by (cases v rule: finite_num.cases) simp_all

lemma json_number_not_null: "json_number v \<noteq> JNull \<longleftrightarrow> finite_num v"
  by (cases v rule: finite_num.cases) simp_all

lemma length_fixScript: "length (fst (fixScript net ps w)) = length ps"
  by (simp add: fixScript_def split_def Let_def length_fixAll)

lemma fixScript_Cons:
  "fst (fixScript net (p # ps) w) =
     written (fst (fixOne net p w)) # fst (fixScript net ps (snd (fixOne net p w)))"
  by (simp add: fixScript_def split_def Let_def)

lemma fixOne_finite:
  assumes "\<forall>n q. finite_reply (net n q)" and "from_json p"
  shows "from_json (fst (fixOne net p w)) \<and>
         (lat p \<noteq> JNull \<longrightarrow> lat (fst (fixOne net p w)) \<noteq> JNull) \<and>
         (lon p \<noteq> JNull \<longrightarrow> lon (fst (fixOne net p w)) \<noteq> JNull)"
proof (cases "needsUpdate p")
  case False
  with assms show ?thesis by (simp add: fixOne_def)
next
  case True
  show ?thesis
  proof (cases "firstAccepted net (sent w) (queries p)")
    case None
    with True assms show ?thesis
      by (simp add: fixOne_def tryQueries_record queries_nonempty)
  next
    case (Some c)
    from firstAccepted_finite [OF assms(1) Some]
    have "finite_num (fst c)" "finite_num (snd c)" by simp_all
    then have "json_number (fst c) = fst c" "json_number (snd c) = snd c"
      "fst c \<noteq> JNull" "snd c \<noteq> JNull"
      by (auto simp: json_number_finite)
    with Some True show ?thesis
      by (simp add: fixOne_def tryQueries_record queries_nonempty from_json_def)
  qed
qed

text \<open>
  Claim C4, on the collection as the script reads and writes it. For a record read from
  the collection, when no candidate is accepted (in particular when every request comes
  back without a result) the record in memory and the record written are the record on
  entry, so the coordinates are what they were. When the first result of every reply has
  a latitude and a longitude that parse to finite numbers, a coordinate that was not
  \<^verbatim>\<open>null\<close> on entry is not \<^verbatim>\<open>null\<close> in the written record. The run writes every
  record, and goes on with the next one from the world the previous one left.
\<close>

theorem failed_reresolution_keeps_coordinates:
  "(from_json p \<and> needsUpdate p \<and> \<not> fst (tryQueries net (queries p) p w) \<longrightarrow>
      fst (fixOne net p w) = p \<and> written (fst (fixOne net p w)) = p) \<and>
   (from_json p \<and> (\<forall>n q. \<not> truthy (fst (coords_of (net n q)))) \<longrightarrow>
      fst (fixOne net p w) = p \<and> written (fst (fixOne net p w)) = p) \<and>
   (from_json p \<and> (\<forall>n q. finite_reply (net n q)) \<longrightarrow>
      (lat p \<noteq> JNull \<longrightarrow> lat (written (fst (fixOne net p w))) \<noteq> JNull) \<and>
      (lon p \<noteq> JNull \<longrightarrow> lon (written (fst (fixOne net p w))) \<noteq> JNull)) \<and>
   length (fst (fixScript net ps w)) = length ps \<and>
   fst (fixScript net (p # ps) w) =
     written (fst (fixOne net p w)) # fst (fixScript net ps (snd (fixOne net p w)))"
proof -
  have a: "from_json p \<and> needsUpdate p \<and> \<not> fst (tryQueries net (queries p) p w) \<longrightarrow>
      fst (fixOne net p w) = p \<and> written (fst (fixOne net p w)) = p"
    by (simp add: fixOne_def tryQueries_unchanged written_id)
  have b: "from_json p \<and> (\<forall>n q. \<not> truthy (fst (coords_of (net n q)))) \<longrightarrow>
      fst (fixOne net p w) = p \<and> written (fst (fixOne net p w)) = p"
    by (simp add: fixOne_def tryQueries_record queries_nonempty firstAccepted_no_result written_id)
  have c: "from_json p \<and> (\<forall>n q. finite_reply (net n q)) \<longrightarrow>
      (lat p \<noteq> JNull \<longrightarrow> lat (written (fst (fixOne net p w))) \<noteq> JNull) \<and>
      (lon p \<noteq> JNull \<longrightarrow> lon (written (fst (fixOne net p w))) \<noteq> JNull)"
  proof
    assume h: "from_json p \<and> (\<forall>n q. finite_reply (net n q))"
    then have f: "from_json (fst (fixOne net p w)) \<and>
         (lat p \<noteq> JNull \<longrightarrow> lat (fst (fixOne net p w)) \<noteq> JNull) \<and>
         (lon p \<noteq> JNull \<longrightarrow> lon (fst (fixOne net p w)) \<noteq> JNull)"
      using fixOne_finite by blast
    then have "written (fst (fixOne net p w)) = fst (fixOne net p w)"
      by (simp add: written_id)
    with f show "(lat p \<noteq> JNull \<longrightarrow> lat (written (fst (fixOne net p w))) \<noteq> JNull) \<and>
      (lon p \<noteq> JNull \<longrightarrow> lon (written (fst (fixOne net p w))) \<noteq> JNull)"
      by simp
  qed
  from a b c show ?thesis
    by (simp only: length_fixScript fixScript_Cons simp_thms)
qed

theorem failed_reresolution_keeps_coordinates_witness:
  "from_json canton_ms \<and> needsUpdate canton_ms \<and>
   \<not> fst (tryQueries net_none (queries canton_ms) canton_ms w0) \<and>
   (\<forall>n q. \<not> truthy (fst (coords_of (net_none n q)))) \<and>
   (\<forall>n q. finite_reply (net_mi n q)) \<and>
   lat canton_ms \<noteq> JNull \<and> lon canton_ms \<noteq> JNull \<and>
   written (fst (fixOne net_none canton_ms w0)) = canton_ms \<and>
   lat (written (fst (fixOne net_mi canton_ms w0))) \<noteq> JNull \<and>
   lon (written (fst (fixOne net_mi canton_ms w0))) \<noteq> JNull \<and>
   fst (fixScript net_none [canton_ms] w0) = [canton_ms]"
proof -
  note th = failed_reresolution_keeps_coordinates [of canton_ms net_none w0 "[]"]
  note th2 = failed_reresolution_keeps_coordinates [of canton_ms net_mi w0 "[]"]
  have 0: "from_json canton_ms"
    by (simp add: from_json_def canton_ms_def)
  have 1: "needsUpdate canton_ms"
    by (simp add: needsUpdate_def canton_ms_def)
  have nr: "\<forall>n q. \<not> truthy (fst (coords_of (net_none n q)))"
    by (simp add: net_none_def)
  have 2: "\<not> fst (tryQueries net_none (queries canton_ms) canton_ms w0)"
    using nr by (simp add: tryQueries_found queries_nonempty firstAccepted_no_result)
  have fin: "\<forall>n q. finite_reply (net_mi n q)"
    by (simp add: net_mi_def)
  have 3: "lat canton_ms \<noteq> JNull" "lon canton_ms \<noteq> JNull"
    by (simp_all add: canton_ms_def)
  have 4: "written (fst (fixOne net_none canton_ms w0)) = canton_ms"
    using th 0 1 2 by blast
  have 5: "lat (written (fst (fixOne net_mi canton_ms w0))) \<noteq> JNull"
    "lon (written (fst (fixOne net_mi canton_ms w0))) \<noteq> JNull"
    using th2 0 fin 3 by blast+
  have 6: "fst (fixScript net_none [canton_ms] w0) = [canton_ms]"
    using th 4 by (simp add: fixScript_def)
  from 0 1 2 nr fin 3 4 5 6 show ?thesis by blast
qed

text \<open>
  An accepted result whose longitude does not parse is stored as \<open>NaN\<close> and written as
  \<^verbatim>\<open>null\<close> where the record had -90; with the latitude \<^verbatim>\<open>"Infinity"\<close> as well, both
  coordinates are written as \<^verbatim>\<open>null\<close>.
\<close>

theorem unparsed_reply_written_as_null:
  "from_json canton_ms \<and> lat canton_ms = JNum (Fin 32) \<and> lon canton_ms = JNum (Fin (- 90)) \<and>
   fst (fixOne net_nan canton_ms w0) = canton_ms\<lparr>lat := JNum (Fin (423 / 10)), lon := JNum NaN\<rparr> \<and>
   fst (fixScript net_nan [canton_ms] w0) = [canton_ms\<lparr>lat := JNum (Fin (423 / 10)), lon := JNull\<rparr>] \<and>
   fst (fixOne net_inf canton_ms w0) = canton_ms\<lparr>lat := JNum PosInf, lon := JNum NaN\<rparr> \<and>
   fst (fixScript net_inf [canton_ms] w0) = [canton_ms\<lparr>lat := JNull, lon := JNull\<rparr>]"
  by (simp add: fixScript_def fixOne_def needsUpdate_def canton_ms_def queries_def
        ADDRESS_NOT_FOUND_def net_inf_def net_nan_def w0_def geocodeAddress_fix_def suspicious_def
        expandState_def STATE_MAP_def endsWith_def written_def from_json_def Let_def)

section \<open>The candidate queries\<close>

lemma entity_len_no_amp: "CHR ''&'' \<noteq> x \<Longrightarrow> entity_len (x # xs) = None"
  by (auto simp: entity_len_def)

lemma strip_entities_no_amp: "CHR ''&'' \<notin> set s \<Longrightarrow> strip_entities s = s"
  by (induction s) (simp_all add: entity_len_no_amp)

lemma processPage_requests_general:
  assumes "l \<noteq> []" "l \<noteq> ADDRESS_NOT_FOUND" "t \<noteq> []"
    and "processPage net (Some t) u img descr (Some l) w = Inr (p', w')"
  shows "requests_of (events w') =
           requests_of (events w) @
           Search (the (geocodeQuery (Some t) (outputAddress (Some l)))) #
           (if truthy (fst (coords_of (net (sent w)
                  (the (geocodeQuery (Some t) (outputAddress (Some l)))))))
            then [] else [Search l])"
  using assms
  by (auto simp: processPage_def outputAddress_def geocodeQuery_def geocodeAddress_scrape_def
        Let_def split: if_splits)

lemma processPage_returns:
  "\<exists>p' w'. processPage net (Some t) u img descr location w = Inr (p', w')"
  by (simp add: processPage_def Let_def split_def)

text \<open>
  Claim C7, as the two scripts build their queries. For a record with a non-empty,
  non-sentinel address and a non-empty title the re-resolution candidates are three
  non-empty strings: the address with \<^verbatim>\<open>", USA"\<close>, and the title, the address and
  \<^verbatim>\<open>", USA"\<close> joined by commas, and last the coarse fallback, the title with
  \<^verbatim>\<open>", USA"\<close>; they are without duplicates exactly when the address differs from the
  title. In the initial geocode, for a non-empty title and a non-empty, non-sentinel
  location, the first query is the title, a comma and the location with its numeric
  character references removed, or the title alone when the location so cleaned is the
  sentinel; the location alone is requested next when the first answer has no truthy
  latitude. A location without \<^verbatim>\<open>&\<close> is not changed by the cleaning.
\<close>

theorem candidate_queries_shape:
  "(address p \<noteq> [] \<and> address p \<noteq> ADDRESS_NOT_FOUND \<and> title p = Some t \<and> t \<noteq> [] \<longrightarrow>
      length (queries p) = 3 \<and>
      set (queries p) =
        {address p @ '', USA'', t @ '', '' @ address p @ '', USA'', t @ '', USA''} \<and>
      [] \<notin> set (queries p) \<and>
      (distinct (queries p) \<longleftrightarrow> address p \<noteq> t) \<and>
      last (queries p) = t @ '', USA'') \<and>
   (l \<noteq> [] \<and> l \<noteq> ADDRESS_NOT_FOUND \<and> t \<noteq> [] \<longrightarrow>
      geocodeQuery (Some t) (outputAddress (Some l)) =
        (if strip_entities l = ADDRESS_NOT_FOUND then Some t
         else Some (t @ '', '' @ strip_entities l)) \<and>
      (\<exists>p' w'. processPage net (Some t) u img descr (Some l) w = Inr (p', w') \<and>
         requests_of (events w') =
           requests_of (events w) @
           Search (the (geocodeQuery (Some t) (outputAddress (Some l)))) #
           (if truthy (fst (coords_of (net (sent w)
                  (the (geocodeQuery (Some t) (outputAddress (Some l)))))))
            then [] else [Search l]))) \<and>
   (CHR ''&'' \<notin> set l \<longrightarrow> strip_entities l = l)"
proof -
  have a: "address p \<noteq> [] \<and> address p \<noteq> ADDRESS_NOT_FOUND \<and> title p = Some t \<and> t \<noteq> [] \<longrightarrow>
      length (queries p) = 3 \<and>
      set (queries p) =
        {address p @ '', USA'', t @ '', '' @ address p @ '', USA'', t @ '', USA''} \<and>
      [] \<notin> set (queries p) \<and>
      (distinct (queries p) \<longleftrightarrow> address p \<noteq> t) \<and>
      last (queries p) = t @ '', USA''"
    by (auto simp: queries_def)
  have b: "l \<noteq> [] \<and> l \<noteq> ADDRESS_NOT_FOUND \<and> t \<noteq> [] \<longrightarrow>
      geocodeQuery (Some t) (outputAddress (Some l)) =
        (if strip_entities l = ADDRESS_NOT_FOUND then Some t
         else Some (t @ '', '' @ strip_entities l)) \<and>
      (\<exists>p' w'. processPage net (Some t) u img descr (Some l) w = Inr (p', w') \<and>
         requests_of (events w') =
           requests_of (events w) @
           Search (the (geocodeQuery (Some t) (outputAddress (Some l)))) #
           (if truthy (fst (coords_of (net (sent w)
                  (the (geocodeQuery (Some t) (outputAddress (Some l)))))))
            then [] else [Search l]))"
  proof
    assume h: "l \<noteq> [] \<and> l \<noteq> ADDRESS_NOT_FOUND \<and> t \<noteq> []"
    have 1: "geocodeQuery (Some t) (outputAddress (Some l)) =
        (if strip_entities l = ADDRESS_NOT_FOUND then Some t
         else Some (t @ '', '' @ strip_entities l))"
      using h by (simp add: geocodeQuery_def outputAddress_def)
    from processPage_returns [of net t u img descr "Some l" w]
    obtain p' w' where r: "processPage net (Some t) u img descr (Some l) w = Inr (p', w')"
      by blast
    from h have "l \<noteq> []" "l \<noteq> ADDRESS_NOT_FOUND" "t \<noteq> []" by simp_all
    from processPage_requests_general [OF this r] r 1
    show "geocodeQuery (Some t) (outputAddress (Some l)) =
        (if strip_entities l = ADDRESS_NOT_FOUND then Some t
         else Some (t @ '', '' @ strip_entities l)) \<and>
      (\<exists>p' w'. processPage net (Some t) u img descr (Some l) w = Inr (p', w') \<and>
         requests_of (events w') =
           requests_of (events w) @
           Search (the (geocodeQuery (Some t) (outputAddress (Some l)))) #
           (if truthy (fst (coords_of (net (sent w)
                  (the (geocodeQuery (Some t) (outputAddress (Some l)))))))
            then [] else [Search l]))"
      by blast
  qed
  have c: "CHR ''&'' \<notin> set l \<longrightarrow> strip_entities l = l"
    by (simp add: strip_entities_no_amp)
  from a b c show ?thesis by blast
qed

theorem candidate_queries_shape_witness:
  "address canton_ms \<noteq> [] \<and> address canton_ms \<noteq> ADDRESS_NOT_FOUND \<and>
   title canton_ms = Some ''The Meadows at Canton'' \<and>
   length (queries canton_ms) = 3 \<and>
   set (queries canton_ms) =
     {''Canton, MI, USA'', ''The Meadows at Canton, Canton, MI, USA'', ''The Meadows at Canton, USA''} \<and>
   distinct (queries canton_ms) \<and>
   last (queries canton_ms) = ''The Meadows at Canton, USA'' \<and>
   CHR ''&'' \<notin> set ''Canton, MI'' \<and>
   geocodeQuery (Some ''The Meadows at Canton'') (outputAddress (Some ''Canton, MI'')) =
     Some ''The Meadows at Canton, Canton, MI'' \<and>
   geocodeQuery (Some ''The Meadows at Canton'') (outputAddress (Some ''Address Not Found&#8211;'')) =
     Some ''The Meadows at Canton'' \<and>
   processPage net_none (Some ''The Meadows at Canton'') ''u'' None None (Some ''Canton, MI'') w0 =
     Inr (canton_unresolved\<lparr>url := ''u'', address := ''Canton, MI'', location_field := Some ''Canton, MI''\<rparr>,
          \<lparr>sent = 2, events = [Request (Search ''Canton, MI''), Sleep 1000,
              Request (Search ''The Meadows at Canton, Canton, MI''), Sleep 1000]\<rparr>) \<and>
   requests_of [Request (Search ''Canton, MI''), Sleep 1000,
                Request (Search ''The Meadows at Canton, Canton, MI''), Sleep 1000] =
     [Search ''The Meadows at Canton, Canton, MI'', Search ''Canton, MI'']"
proof -
  note th = candidate_queries_shape
    [where p = canton_ms and t = "''The Meadows at Canton''" and l = "''Canton, MI''"
       and net = net_none and u = "''u''" and img = None and descr = None and w = w0]
  note th2 = candidate_queries_shape
    [where p = canton_ms and t = "''The Meadows at Canton''" and l = "''Address Not Found&#8211;''"
       and net = net_none and u = "''u''" and img = None and descr = None and w = w0]
  have pg: "processPage net_none (Some ''The Meadows at Canton'') ''u'' None None (Some ''Canton, MI'') w0 =
     Inr (canton_unresolved\<lparr>url := ''u'', address := ''Canton, MI'', location_field := Some ''Canton, MI''\<rparr>,
          \<lparr>sent = 2, events = [Request (Search ''Canton, MI''), Sleep 1000,
              Request (Search ''The Meadows at Canton, Canton, MI''), Sleep 1000]\<rparr>)"
    by (simp add: processPage_def outputAddress_def geocodeQuery_def ADDRESS_NOT_FOUND_def
          entity_len_def geocodeAddress_scrape_def net_none_def w0_def canton_unresolved_def
          sleep_def issue_def Let_def numeral_2_eq_2)
  have hs: "address canton_ms \<noteq> [] \<and> address canton_ms \<noteq> ADDRESS_NOT_FOUND \<and>
            title canton_ms = Some ''The Meadows at Canton'' \<and> ''The Meadows at Canton'' \<noteq> []"
    "''Canton, MI'' \<noteq> [] \<and> ''Canton, MI'' \<noteq> ADDRESS_NOT_FOUND \<and> ''The Meadows at Canton'' \<noteq> []"
    "CHR ''&'' \<notin> set ''Canton, MI''"
    "''Address Not Found&#8211;'' \<noteq> [] \<and> ''Address Not Found&#8211;'' \<noteq> ADDRESS_NOT_FOUND \<and>
     ''The Meadows at Canton'' \<noteq> []"
    by (simp_all add: canton_ms_def ADDRESS_NOT_FOUND_def)
  have st: "strip_entities ''Canton, MI'' = ''Canton, MI''"
    "strip_entities ''Address Not Found&#8211;'' = ADDRESS_NOT_FOUND"
    by (simp_all add: entity_len_def ADDRESS_NOT_FOUND_def is_digit_def)
  from th2 hs(4) st(2)
  have s2: "geocodeQuery (Some ''The Meadows at Canton'') (outputAddress (Some ''Address Not Found&#8211;'')) =
     Some ''The Meadows at Canton''"
    by simp
  have addr: "address canton_ms = ''Canton, MI''"
    by (simp add: canton_ms_def)
  from th hs(1)
  have A: "length (queries canton_ms) = 3 \<and>
      set (queries canton_ms) =
        {address canton_ms @ '', USA'', ''The Meadows at Canton'' @ '', '' @ address canton_ms @ '', USA'',
         ''The Meadows at Canton'' @ '', USA''} \<and>
      (distinct (queries canton_ms) \<longleftrightarrow> address canton_ms \<noteq> ''The Meadows at Canton'') \<and>
      last (queries canton_ms) = ''The Meadows at Canton'' @ '', USA''"
    by blast
  have A': "length (queries canton_ms) = 3 \<and>
      set (queries canton_ms) =
        {''Canton, MI, USA'', ''The Meadows at Canton, Canton, MI, USA'', ''The Meadows at Canton, USA''} \<and>
      distinct (queries canton_ms) \<and>
      last (queries canton_ms) = ''The Meadows at Canton, USA''"
    using A unfolding addr by simp
  from th hs(2) st(1)
  have B: "geocodeQuery (Some ''The Meadows at Canton'') (outputAddress (Some ''Canton, MI'')) =
     Some ''The Meadows at Canton, Canton, MI''"
    by (simp add: ADDRESS_NOT_FOUND_def)
  from th hs(2)
  obtain p' w' where
    r: "processPage net_none (Some ''The Meadows at Canton'') ''u'' None None (Some ''Canton, MI'') w0 =
          Inr (p', w')"
    and q: "requests_of (events w') =
           requests_of (events w0) @
           Search (the (geocodeQuery (Some ''The Meadows at Canton'') (outputAddress (Some ''Canton, MI'')))) #
           (if truthy (fst (coords_of (net_none (sent w0)
                  (the (geocodeQuery (Some ''The Meadows at Canton'') (outputAddress (Some ''Canton, MI'')))))))
            then [] else [Search ''Canton, MI''])"
    by blast
  from r pg have w': "w' = \<lparr>sent = 2, events = [Request (Search ''Canton, MI''), Sleep 1000,
              Request (Search ''The Meadows at Canton, Canton, MI''), Sleep 1000]\<rparr>"
    by simp
  from q have C: "requests_of [Request (Search ''Canton, MI''), Sleep 1000,
                Request (Search ''The Meadows at Canton, Canton, MI''), Sleep 1000] =
     [Search ''The Meadows at Canton, Canton, MI'', Search ''Canton, MI'']"
    unfolding B w' by (simp add: net_none_def w0_def)
  from hs(1) hs(3) A' B s2 pg C show ?thesis by blast
qed

text \<open>
  No re-resolution candidate of the example is the title, a comma and the location; with
  the title equal to the address the list has a duplicate.
\<close>

theorem no_candidate_is_title_and_location:
  "queries canton_ms =
     [''Canton, MI, USA'', ''The Meadows at Canton, Canton, MI, USA'', ''The Meadows at Canton, USA''] \<and>
   ''The Meadows at Canton, Canton, MI'' \<notin> set (queries canton_ms) \<and>
   hd (queries canton_ms) \<noteq> ''The Meadows at Canton, Canton, MI'' \<and>
   queries same_title_address =
     [''Canton, MI, USA'', ''Canton, MI, Canton, MI, USA'', ''Canton, MI, USA''] \<and>
   \<not> distinct (queries same_title_address)"
  by (simp add: queries_def canton_ms_def same_title_address_def ADDRESS_NOT_FOUND_def)

section \<open>Repeated enrichment\<close>

lemma enrichOne_skip: "truthy_str (zip_code p) \<Longrightarrow> enrichOne net p w = (p, w)"
  by (simp add: enrichOne_def)

lemma enrichOne_enriched: "enriched p (fst (enrichOne net p w))"
  by (cases "net (sent w) (lat p) (lon p)")
     (simp_all add: enriched_def enrichOne_def reverseGeocode_def Let_def)

lemma enrichAll_enriched: "list_all2 enriched ps (fst (enrichAll net ps w))"
  by (induction ps arbitrary: w) (simp_all add: split_def Let_def enrichOne_enriched)

lemma enrichAll_skip:
  "\<forall>p \<in> set ps. truthy_str (zip_code p) \<or> \<not> truthy (lat p) \<or> \<not> truthy (lon p)
     \<Longrightarrow> enrichAll net ps w = (ps, w)"
  by (induction ps arbitrary: w) (auto simp: enrichOne_def)

lemma enriched_changed:
  assumes "enriched p p'" and "p' \<noteq> p"
  shows "truthy_str (zip_code p') \<and> \<not> truthy_str (zip_code p) \<and>
         address p' = address p @ '' '' @ the (zip_code p')"
proof -
  from assms have z: "truthy_str (zip_code p')" "\<not> truthy_str (zip_code p)"
    and eq: "p' = p\<lparr>zip_code := zip_code p', address := address p @ '' '' @ the (zip_code p')\<rparr>"
    unfolding enriched_def by blast+
  have "address p' =
        address (p\<lparr>zip_code := zip_code p', address := address p @ '' '' @ the (zip_code p')\<rparr>)"
    using arg_cong [OF eq, of address] .
  then have "address p' = address p @ '' '' @ the (zip_code p')"
    by simp
  with z show ?thesis by blast
qed

lemma enriched_twice:
  assumes "enriched p0 p1" and "enriched p1 p2"
  shows "(truthy_str (zip_code p1) \<longrightarrow> p2 = p1) \<and>
         (address p2 = address p0 \<or>
          (truthy_str (zip_code p2) \<and> address p2 = address p0 @ '' '' @ the (zip_code p2)))"
proof (cases "p2 = p1")
  case True
  show ?thesis
  proof (cases "p1 = p0")
    case True
    with \<open>p2 = p1\<close> show ?thesis by simp
  next
    case False
    from enriched_changed [OF assms(1) False] \<open>p2 = p1\<close> show ?thesis by simp
  qed
next
  case False
  note c2 = enriched_changed [OF assms(2) False]
  have "p1 = p0"
  proof (rule ccontr)
    assume "p1 \<noteq> p0"
    from enriched_changed [OF assms(1) this] c2 show False by blast
  qed
  with c2 False show ?thesis by blast
qed

lemma enrichOne_attempt:
  "\<not> truthy_str (zip_code p) \<and> truthy (lat p) \<and> truthy (lon p) \<Longrightarrow>
     enrichOne net p w =
       (case net (sent w) (lat p) (lon p) of
          Postcode z \<Rightarrow>
            if z \<noteq> [] then p\<lparr>zip_code := Some z, address := address p @ '' '' @ z\<rparr> else p
        | _ \<Rightarrow> p,
        sleep 1000 (issue (Reverse (lat p) (lon p)) w))"
  by (cases "net (sent w) (lat p) (lon p)")
     (simp_all add: enrichOne_def reverseGeocode_def Let_def)

lemma enrichAll_nth:
  "i < length ps \<Longrightarrow>
     fst (enrichAll net ps w) ! i =
       fst (enrichOne net (ps ! i) (snd (enrichAll net (take i ps) w)))"
proof (induction ps arbitrary: i w)
  case Nil
  then show ?case by simp
next
  case (Cons p ps)
  show ?case
  proof (cases i)
    case 0
    then show ?thesis by (simp add: split_def Let_def)
  next
    case (Suc j)
    with Cons.prems have "j < length ps" by simp
    from Cons.IH [OF this, of "snd (enrichOne net p w)"] Suc
    show ?thesis by (simp add: split_def Let_def)
  qed
qed

lemma from_json_enrichOne: "from_json p \<Longrightarrow> from_json (fst (enrichOne net p w))"
  using enrichOne_coordinates [of net p w] by (simp add: from_json_def)

lemma from_json_enrichAll:
  "\<forall>p \<in> set ps. from_json p \<Longrightarrow> \<forall>p \<in> set (fst (enrichAll net ps w)). from_json p"
  by (induction ps arbitrary: w) (simp_all add: split_def Let_def from_json_enrichOne)

lemma from_json_written: "from_json (written p)"
  by (cases "lat p" rule: finite_num.cases; cases "lon p" rule: finite_num.cases)
     (simp_all add: from_json_def written_def)

lemma enrichScript_from_json:
  "\<forall>p \<in> set ps. from_json p \<Longrightarrow> enrichScript net ps w = enrichAll net ps w"
proof -
  assume "\<forall>p \<in> set ps. from_json p"
  then have "\<forall>p \<in> set (fst (enrichAll net ps w)). from_json p"
    by (rule from_json_enrichAll)
  then have "map written (fst (enrichAll net ps w)) = fst (enrichAll net ps w)"
    by (simp add: map_idI written_id)
  then show ?thesis by (simp add: enrichScript_def split_def Let_def)
qed

lemma enrichScript_output_from_json: "\<forall>p \<in> set (fst (enrichScript net ps w)). from_json p"
  by (simp add: enrichScript_def split_def Let_def from_json_written)

text \<open>
  Claim C8, as the script behaves. A record whose postal code is set is skipped: the
  record and the world are unchanged. A record without a postal code and with truthy
  coordinates gets one reverse-geocode request and the wait: it takes the postal code,
  appended to its address after a space, when the reply has a non-empty one, and is
  unchanged otherwise. Over a first run on a collection read from a file and a second
  run on its output, with any services: each run leaves a record alone or gives a record
  without a postal code one, appended to its address; each record of the second run is
  the body of the loop applied to the record the first run wrote; a record that has a
  postal code after the first run is not changed by the second; and the address after
  the second run is the original address or the original address followed by one postal
  code. A run over records that each have a postal code or a falsy coordinate changes
  nothing and makes no request.
\<close>

theorem enrichment_second_run:
  "(truthy_str (zip_code p) \<longrightarrow> enrichOne net p w = (p, w)) \<and>
   (\<not> truthy_str (zip_code p) \<and> truthy (lat p) \<and> truthy (lon p) \<longrightarrow>
      enrichOne net p w =
        (case net (sent w) (lat p) (lon p) of
           Postcode z \<Rightarrow>
             if z \<noteq> [] then p\<lparr>zip_code := Some z, address := address p @ '' '' @ z\<rparr> else p
         | _ \<Rightarrow> p,
         sleep 1000 (issue (Reverse (lat p) (lon p)) w))) \<and>
   ((\<forall>p \<in> set ps. from_json p) \<and>
    ps1 = fst (enrichScript net ps w) \<and> ps2 = fst (enrichScript net' ps1 w') \<longrightarrow>
      length ps1 = length ps \<and> length ps2 = length ps \<and>
      (\<forall>i < length ps.
         enriched (ps ! i) (ps1 ! i) \<and> enriched (ps1 ! i) (ps2 ! i) \<and>
         ps2 ! i = fst (enrichOne net' (ps1 ! i) (snd (enrichAll net' (take i ps1) w'))) \<and>
         (truthy_str (zip_code (ps1 ! i)) \<longrightarrow> ps2 ! i = ps1 ! i) \<and>
         (address (ps2 ! i) = address (ps ! i) \<or>
          (truthy_str (zip_code (ps2 ! i)) \<and>
           address (ps2 ! i) = address (ps ! i) @ '' '' @ the (zip_code (ps2 ! i)))))) \<and>
   ((\<forall>p \<in> set ps. from_json p \<and>
        (truthy_str (zip_code p) \<or> \<not> truthy (lat p) \<or> \<not> truthy (lon p))) \<longrightarrow>
      enrichScript net ps w = (ps, w))"
proof -
  have a: "truthy_str (zip_code p) \<longrightarrow> enrichOne net p w = (p, w)"
    by (simp add: enrichOne_skip)
  have a': "\<not> truthy_str (zip_code p) \<and> truthy (lat p) \<and> truthy (lon p) \<longrightarrow>
      enrichOne net p w =
        (case net (sent w) (lat p) (lon p) of
           Postcode z \<Rightarrow>
             if z \<noteq> [] then p\<lparr>zip_code := Some z, address := address p @ '' '' @ z\<rparr> else p
         | _ \<Rightarrow> p,
         sleep 1000 (issue (Reverse (lat p) (lon p)) w))"
    using enrichOne_attempt by blast
  have c: "(\<forall>p \<in> set ps. from_json p \<and>
        (truthy_str (zip_code p) \<or> \<not> truthy (lat p) \<or> \<not> truthy (lon p))) \<longrightarrow>
      enrichScript net ps w = (ps, w)"
  proof
    assume h: "\<forall>p \<in> set ps. from_json p \<and>
        (truthy_str (zip_code p) \<or> \<not> truthy (lat p) \<or> \<not> truthy (lon p))"
    then have "enrichScript net ps w = enrichAll net ps w"
      by (simp add: enrichScript_from_json)
    moreover from h have "enrichAll net ps w = (ps, w)"
      by (simp add: enrichAll_skip)
    ultimately show "enrichScript net ps w = (ps, w)" by simp
  qed
  have b: "(\<forall>p \<in> set ps. from_json p) \<and>
    ps1 = fst (enrichScript net ps w) \<and> ps2 = fst (enrichScript net' ps1 w') \<longrightarrow>
      length ps1 = length ps \<and> length ps2 = length ps \<and>
      (\<forall>i < length ps.
         enriched (ps ! i) (ps1 ! i) \<and> enriched (ps1 ! i) (ps2 ! i) \<and>
         ps2 ! i = fst (enrichOne net' (ps1 ! i) (snd (enrichAll net' (take i ps1) w'))) \<and>
         (truthy_str (zip_code (ps1 ! i)) \<longrightarrow> ps2 ! i = ps1 ! i) \<and>
         (address (ps2 ! i) = address (ps ! i) \<or>
          (truthy_str (zip_code (ps2 ! i)) \<and>
           address (ps2 ! i) = address (ps ! i) @ '' '' @ the (zip_code (ps2 ! i)))))"
  proof
    assume h: "(\<forall>p \<in> set ps. from_json p) \<and>
      ps1 = fst (enrichScript net ps w) \<and> ps2 = fst (enrichScript net' ps1 w')"
    then have e1: "ps1 = fst (enrichAll net ps w)"
      by (simp add: enrichScript_from_json)
    from h have "\<forall>p \<in> set ps1. from_json p"
      by (simp add: enrichScript_output_from_json)
    with h have e2: "ps2 = fst (enrichAll net' ps1 w')"
      by (simp add: enrichScript_from_json)
    from e1 e2 have r1: "list_all2 enriched ps ps1" and r2: "list_all2 enriched ps1 ps2"
      by (simp_all add: enrichAll_enriched)
    from r1 have l1: "length ps1 = length ps" by (simp add: list_all2_lengthD)
    from r2 l1 have l2: "length ps2 = length ps" by (simp add: list_all2_lengthD)
    have "\<forall>i < length ps.
         enriched (ps ! i) (ps1 ! i) \<and> enriched (ps1 ! i) (ps2 ! i) \<and>
         ps2 ! i = fst (enrichOne net' (ps1 ! i) (snd (enrichAll net' (take i ps1) w'))) \<and>
         (truthy_str (zip_code (ps1 ! i)) \<longrightarrow> ps2 ! i = ps1 ! i) \<and>
         (address (ps2 ! i) = address (ps ! i) \<or>
          (truthy_str (zip_code (ps2 ! i)) \<and>
           address (ps2 ! i) = address (ps ! i) @ '' '' @ the (zip_code (ps2 ! i))))"
    proof (intro allI impI)
      fix i assume i: "i < length ps"
      from r1 i have x1: "enriched (ps ! i) (ps1 ! i)" by (simp add: list_all2_nthD)
      from r2 i l1 have x2: "enriched (ps1 ! i) (ps2 ! i)" by (simp add: list_all2_nthD)
      from i l1 e2 have x3:
        "ps2 ! i = fst (enrichOne net' (ps1 ! i) (snd (enrichAll net' (take i ps1) w')))"
        by (simp add: enrichAll_nth)
      from enriched_twice [OF x1 x2] x1 x2 x3
      show "enriched (ps ! i) (ps1 ! i) \<and> enriched (ps1 ! i) (ps2 ! i) \<and>
         ps2 ! i = fst (enrichOne net' (ps1 ! i) (snd (enrichAll net' (take i ps1) w'))) \<and>
         (truthy_str (zip_code (ps1 ! i)) \<longrightarrow> ps2 ! i = ps1 ! i) \<and>
         (address (ps2 ! i) = address (ps ! i) \<or>
          (truthy_str (zip_code (ps2 ! i)) \<and>
           address (ps2 ! i) = address (ps ! i) @ '' '' @ the (zip_code (ps2 ! i))))"
        by blast
    qed
    with l1 l2 show "length ps1 = length ps \<and> length ps2 = length ps \<and>
      (\<forall>i < length ps.
         enriched (ps ! i) (ps1 ! i) \<and> enriched (ps1 ! i) (ps2 ! i) \<and>
         ps2 ! i = fst (enrichOne net' (ps1 ! i) (snd (enrichAll net' (take i ps1) w'))) \<and>
         (truthy_str (zip_code (ps1 ! i)) \<longrightarrow> ps2 ! i = ps1 ! i) \<and>
         (address (ps2 ! i) = address (ps ! i) \<or>
          (truthy_str (zip_code (ps2 ! i)) \<and>
           address (ps2 ! i) = address (ps ! i) @ '' '' @ the (zip_code (ps2 ! i)))))"
      by blast
  qed
  from a a' b c show ?thesis by blast
qed

theorem enrichment_second_run_witness:
  "truthy_str (zip_code canton_zip) \<and>
   enrichOne rnet_48187 canton_zip w0 = (canton_zip, w0) \<and>
   \<not> truthy_str (zip_code canton_mi) \<and> truthy (lat canton_mi) \<and> truthy (lon canton_mi) \<and>
   enrichOne rnet_48187 canton_mi w0 =
     (canton_zip, sleep 1000 (issue (Reverse (lat canton_mi) (lon canton_mi)) w0)) \<and>
   from_json canton_mi \<and>
   enrichScript rnet_48187 [canton_zip, canton_ms\<lparr>lat := JNum (Fin 0)\<rparr>] w0 =
     ([canton_zip, canton_ms\<lparr>lat := JNum (Fin 0)\<rparr>], w0) \<and>
   fst (enrichScript rnet_48187 [canton_mi] w0) = [canton_zip] \<and>
   enriched canton_mi canton_zip \<and>
   fst (enrichScript rnet_48187 (fst (enrichScript rnet_48187 [canton_mi] w0)) w0) ! 0 = canton_zip \<and>
   address (fst (enrichScript rnet_48187 (fst (enrichScript rnet_48187 [canton_mi] w0)) w0) ! 0) =
     ''Canton, MI 48187''"
proof -
  let ?ps1 = "fst (enrichScript rnet_48187 [canton_mi] w0)"
  let ?ps2 = "fst (enrichScript rnet_48187 ?ps1 w0)"
  note th1 = enrichment_second_run
    [where p = canton_zip and net = rnet_48187 and w = w0 and ps = "[canton_mi]"
       and net' = rnet_48187 and w' = w0 and ?ps1.0 = ?ps1 and ?ps2.0 = ?ps2]
  note th2 = enrichment_second_run
    [where p = canton_mi and net = rnet_48187 and w = w0
       and ps = "[canton_zip, canton_ms\<lparr>lat := JNum (Fin 0)\<rparr>]"
       and net' = rnet_48187 and w' = w0 and ?ps1.0 = ?ps1 and ?ps2.0 = ?ps2]
  have z: "truthy_str (zip_code canton_zip)"
    by (simp add: canton_zip_def)
  have nz: "\<not> truthy_str (zip_code canton_mi)" "truthy (lat canton_mi)" "truthy (lon canton_mi)"
    by (simp_all add: canton_mi_def)
  have fj: "\<forall>p \<in> set [canton_mi]. from_json p"
    by (simp add: from_json_def canton_mi_def)
  have sk: "\<forall>p \<in> set [canton_zip, canton_ms\<lparr>lat := JNum (Fin 0)\<rparr>].
              from_json p \<and> (truthy_str (zip_code p) \<or> \<not> truthy (lat p) \<or> \<not> truthy (lon p))"
    by (simp add: canton_zip_def canton_mi_def canton_ms_def from_json_def)
  have rp: "rnet_48187 (sent w0) (lat canton_mi) (lon canton_mi) = Postcode ''48187''"
    by (simp add: rnet_48187_def)
  have cz: "canton_mi\<lparr>zip_code := Some ''48187'', address := address canton_mi @ '' '' @ ''48187''\<rparr> =
            canton_zip"
    by (simp add: canton_zip_def canton_mi_def)
  from th1 z have a: "enrichOne rnet_48187 canton_zip w0 = (canton_zip, w0)"
    by blast
  from th2 nz have "enrichOne rnet_48187 canton_mi w0 =
        (case rnet_48187 (sent w0) (lat canton_mi) (lon canton_mi) of
           Postcode z \<Rightarrow>
             if z \<noteq> [] then canton_mi\<lparr>zip_code := Some z, address := address canton_mi @ '' '' @ z\<rparr>
             else canton_mi
         | _ \<Rightarrow> canton_mi,
         sleep 1000 (issue (Reverse (lat canton_mi) (lon canton_mi)) w0))"
    by blast
  with rp cz have a': "enrichOne rnet_48187 canton_mi w0 =
     (canton_zip, sleep 1000 (issue (Reverse (lat canton_mi) (lon canton_mi)) w0))"
    by simp
  from th2 sk have b: "enrichScript rnet_48187 [canton_zip, canton_ms\<lparr>lat := JNum (Fin 0)\<rparr>] w0 =
     ([canton_zip, canton_ms\<lparr>lat := JNum (Fin 0)\<rparr>], w0)"
    by blast
  have r1: "?ps1 = [canton_zip]"
    using a' fj by (simp add: enrichScript_from_json)
  have hyp: "(\<forall>p \<in> set [canton_mi]. from_json p) \<and>
      ?ps1 = fst (enrichScript rnet_48187 [canton_mi] w0) \<and>
      ?ps2 = fst (enrichScript rnet_48187 ?ps1 w0)"
    using fj by blast
  from th1 hyp have "\<forall>i < length [canton_mi].
      enriched ([canton_mi] ! i) (?ps1 ! i) \<and>
      (truthy_str (zip_code (?ps1 ! i)) \<longrightarrow> ?ps2 ! i = ?ps1 ! i)"
    by blast
  then have c: "enriched ([canton_mi] ! 0) (?ps1 ! 0) \<and>
      (truthy_str (zip_code (?ps1 ! 0)) \<longrightarrow> ?ps2 ! 0 = ?ps1 ! 0)"
    by simp
  from c r1 z have d: "enriched canton_mi canton_zip" "?ps2 ! 0 = canton_zip"
    by simp_all
  from d(2) have e: "address (?ps2 ! 0) = ''Canton, MI 48187''"
    by (simp add: canton_zip_def)
  from fj have fj': "from_json canton_mi" by simp
  from z a nz a' fj' b r1 d e show ?thesis by blast
qed

text \<open>
  A record whose reverse geocode failed in the first run is tried again by the second
  run and changed by it when the service answers.
\<close>

theorem second_run_changes_record:
  "from_json canton_mi \<and>
   fst (enrichScript rnet_flaky [canton_mi] w0) = [canton_mi] \<and>
   fst (enrichScript rnet_flaky (fst (enrichScript rnet_flaky [canton_mi] w0))
          (snd (enrichScript rnet_flaky [canton_mi] w0))) =
     [canton_mi\<lparr>zip_code := Some ''48187'', address := ''Canton, MI 48187''\<rparr>] \<and>
   fst (enrichScript rnet_flaky (fst (enrichScript rnet_flaky [canton_mi] w0))
          (snd (enrichScript rnet_flaky [canton_mi] w0))) \<noteq>
     fst (enrichScript rnet_flaky [canton_mi] w0)"
  by (simp add: enrichScript_def enrichOne_def reverseGeocode_def rnet_flaky_def canton_mi_def
        w0_def sleep_def issue_def Let_def written_def from_json_def)

section \<open>The sentinel address through the pipeline\<close>

text \<open>
  Claim C10. A page without a location and with a non-empty title is geocoded by its
  title alone; when that request returns truthy coordinates the record holds the sentinel
  address together with them. Re-resolution leaves such a record alone, and enrichment,
  when the reverse geocode returns a postal code, sets it and turns the address into the
  sentinel followed by a space and the postal code.
\<close>

theorem sentinel_address_gets_postcode:
  assumes "\<not> truthy_str location" and "t \<noteq> []"
    and "net (sent w) t = Hit a b" and "truthy (JNum a)" and "truthy (JNum b)"
    and "rnet (sent w2) (JNum a) (JNum b) = Postcode z" and "z \<noteq> []"
  shows "\<exists>p w'. processPage net (Some t) u img descr location w = Inr (p, w') \<and>
           address p = ''Address Not Found'' \<and> lat p = JNum a \<and> lon p = JNum b \<and>
           zip_code p = None \<and>
           fixOne net' p w1 = (p, w1) \<and>
           fst (enrichOne rnet p w2) =
             p\<lparr>zip_code := Some z, address := ''Address Not Found '' @ z\<rparr>"
  using assms
  by (simp add: processPage_def outputAddress_def geocodeQuery_def ADDRESS_NOT_FOUND_def
        geocodeAddress_scrape_def Let_def fixOne_def needsUpdate_def
        enrichOne_def reverseGeocode_def)

theorem sentinel_address_gets_postcode_witness:
  "\<not> truthy_str None \<and> net_mi (sent w0) ''The Meadows at Canton'' =
      Hit (Fin (4231 / 100)) (Fin (- (8348 / 100))) \<and>
   rnet_48187 (sent w0) (JNum (Fin (4231 / 100))) (JNum (Fin (- (8348 / 100)))) = Postcode ''48187'' \<and>
   (\<exists>p w'. processPage net_mi (Some ''The Meadows at Canton'') ''u'' None None None w0 = Inr (p, w') \<and>
      address p = ''Address Not Found'' \<and> lat p = JNum (Fin (4231 / 100)) \<and>
      fixOne net_none p w0 = (p, w0) \<and>
      address (fst (enrichOne rnet_48187 p w0)) = ''Address Not Found 48187'')"
proof -
  have h: "\<not> truthy_str None" "''The Meadows at Canton'' \<noteq> []"
    "net_mi (sent w0) ''The Meadows at Canton'' = Hit (Fin (4231 / 100)) (Fin (- (8348 / 100)))"
    "truthy (JNum (Fin (4231 / 100)))" "truthy (JNum (Fin (- (8348 / 100))))"
    "rnet_48187 (sent w0) (JNum (Fin (4231 / 100))) (JNum (Fin (- (8348 / 100)))) = Postcode ''48187''"
    "''48187'' \<noteq> []"
    by (simp_all add: net_mi_def rnet_48187_def)
  note th = sentinel_address_gets_postcode
    [where location = None and t = "''The Meadows at Canton''" and net = net_mi and w = w0
       and a = "Fin (4231 / 100)" and b = "Fin (- (8348 / 100))" and rnet = rnet_48187
       and ?w2.0 = w0 and z = "''48187''" and u = "''u''" and img = None and descr = None
       and net' = net_none and ?w1.0 = w0]
  from th [OF h]
  obtain p w' where
    "processPage net_mi (Some ''The Meadows at Canton'') ''u'' None None None w0 = Inr (p, w')"
    "address p = ''Address Not Found''" "lat p = JNum (Fin (4231 / 100))"
    "fixOne net_none p w0 = (p, w0)"
    "fst (enrichOne rnet_48187 p w0) = p\<lparr>zip_code := Some ''48187'', address := ''Address Not Found '' @ ''48187''\<rparr>"
    by blast
  then have "processPage net_mi (Some ''The Meadows at Canton'') ''u'' None None None w0 = Inr (p, w') \<and>
      address p = ''Address Not Found'' \<and> lat p = JNum (Fin (4231 / 100)) \<and>
      fixOne net_none p w0 = (p, w0) \<and>
      address (fst (enrichOne rnet_48187 p w0)) = ''Address Not Found 48187''"
    by simp
  then have "\<exists>p w'. processPage net_mi (Some ''The Meadows at Canton'') ''u'' None None None w0 = Inr (p, w') \<and>
      address p = ''Address Not Found'' \<and> lat p = JNum (Fin (4231 / 100)) \<and>
      fixOne net_none p w0 = (p, w0) \<and>
      address (fst (enrichOne rnet_48187 p w0)) = ''Address Not Found 48187''"
    by blast
  with h show ?thesis by blast
qed

end
